theory Spec2Isabelle
  imports Main "HOL-Library.Word"
begin

section \<open>JavaScript strings\<close>

text \<open>
  A JavaScript string is a sequence of UTF-16 code units; \<open>.length\<close> counts code units.
  The literals of the source are ASCII and are written \<open>str ''...''\<close>.
\<close>

type_synonym code_unit = "16 word"
type_synonym jsstring = "code_unit list"

definition str :: "string \<Rightarrow> jsstring" where
  "str s = map of_char s"

text \<open>
  \<open>String.prototype.trim\<close> removes the ECMAScript WhiteSpace and LineTerminator code
  points from both ends: TAB, LF, VT, FF, CR, SP, NBSP, U+1680, U+2000..U+200A, U+2028,
  U+2029, U+202F, U+205F, U+3000 and U+FEFF.
\<close>

definition is_ws :: "code_unit \<Rightarrow> bool" where
  "is_ws c = (c \<in> set [0x9, 0xA, 0xB, 0xC, 0xD, 0x20, 0xA0, 0x1680, 0x2028, 0x2029,
                         0x202F, 0x205F, 0x3000, 0xFEFF]
              \<or> (0x2000 \<le> c \<and> c \<le> 0x200A))"

definition trim :: "jsstring \<Rightarrow> jsstring" where
  "trim s = rev (dropWhile is_ws (rev (dropWhile is_ws s)))"

text \<open>\<open>s.split(sep)\<close> for a separator of one code unit; the empty string gives \<open>['']\<close>.\<close>

fun split_on :: "code_unit \<Rightarrow> jsstring \<Rightarrow> jsstring list" where
  "split_on sep [] = [[]]"
| "split_on sep (c # cs) =
     (if c = sep then [] # split_on sep cs
      else (case split_on sep cs of
              [] \<Rightarrow> [[c]]
            | p # ps \<Rightarrow> (c # p) # ps))"

definition includes_unit :: "jsstring \<Rightarrow> code_unit \<Rightarrow> bool" where
  "includes_unit s c = (c \<in> set s)"

definition startsWith :: "jsstring \<Rightarrow> jsstring \<Rightarrow> bool" where
  "startsWith s p = (take (length p) s = p)"

definition endsWith :: "jsstring \<Rightarrow> jsstring \<Rightarrow> bool" where
  "endsWith s p = (length p \<le> length s \<and> drop (length s - length p) s = p)"

text \<open>A non-negative integer in a template literal: its decimal digits.\<close>

definition digit_unit :: "nat \<Rightarrow> code_unit" where
  "digit_unit d = of_nat (48 + d)"

function show_nat :: "nat \<Rightarrow> jsstring" where
  "show_nat n = (if n < 10 then [digit_unit n]
                 else show_nat (n div 10) @ [digit_unit (n mod 10)])"
  by pat_completeness auto
termination
  by (relation "measure id") auto

declare show_nat.simps [simp del]

section \<open>Types of \<open>token.types.ts\<close>\<close>

datatype TokenErrorType =
    INVALID_FORMAT | TOKEN_NOT_FOUND | API_ERROR | NETWORK_ERROR
  | RATE_LIMITED | UNAUTHORIZED | FILE_NOT_FOUND | INVALID_CONFIG

datatype TokenSource = src_env | src_file | src_direct

datatype ValidationMethod = method_format | method_api | method_both

text \<open>
  A value thrown by the runtime itself (not a \<open>TokenValidationError\<close>): an \<open>Error\<close>
  object with its message, or a value that is no \<open>Error\<close>.
\<close>

datatype thrown = ErrorObject jsstring | NonError

text \<open>
  The \<open>details\<close> object of a \<open>TokenValidationError\<close>. It is untyped in the source; the
  record has one optional field for each key the source ever stores. \<open>'j\<close> is the type of
  parsed JSON values.
\<close>

record 'j ErrorDetails =
  d_statusCode :: "int option"
  d_retryAfter :: "jsstring option"
  d_response :: "'j option"
  d_parseError :: "thrown option"
  d_rawData :: "jsstring option"
  d_originalError :: "jsstring option"
  d_timeout :: "int option"

definition no_details :: "'j ErrorDetails" where
  "no_details = \<lparr> d_statusCode = None, d_retryAfter = None, d_response = None,
                   d_parseError = None, d_rawData = None, d_originalError = None,
                   d_timeout = None \<rparr>"

record 'j TokenValidationError =
  message :: jsstring
  errType :: TokenErrorType
  details :: "'j ErrorDetails option"

record FormatFlags =
  hasCorrectParts :: bool
  hasCorrectLength :: bool
  hasNoSpaces :: bool
  hasNoQuotes :: bool
  isNotBotToken :: bool

record 'u ApiInfo =
  isActive :: bool
  api_userInfo :: "'u option"
  api_error :: "jsstring option"

record Metadata =
  length_md :: nat
  parts :: nat
  source :: TokenSource

record 'u TokenValidationResult =
  isValid :: bool
  format :: FormatFlags
  api :: "'u ApiInfo option"
  errors :: "jsstring list"
  warnings :: "jsstring list"
  metadata :: Metadata

record TokenCheckerConfig =
  checkApi :: bool
  timeout :: int
  includeUserInfo :: bool
  validateFormat_opt :: bool
  userAgent :: "jsstring option"

record 'u ApiValidationResponse =
  success :: bool
  userInfo :: "'u option"
  error :: "jsstring option"
  statusCode :: "int option"
  rateLimited :: "bool option"

text \<open>
  A call that either throws a \<open>TokenValidationError\<close> (\<open>Inl\<close>) or returns a result
  (\<open>Inr\<close>).
\<close>

type_synonym ('j, 'u) outcome = "'j TokenValidationError + 'u TokenValidationResult"

text \<open>
  The argument of \<open>validateFormat\<close> is declared a string, and the function itself tests
  for \<open>null\<close> and \<open>undefined\<close>, which an untyped caller can pass.
\<close>

datatype token_input = Null | Undefined | Str jsstring

section \<open>\<open>FormatValidator\<close>\<close>

definition placeholders :: "jsstring list" where
  "placeholders = [str ''your_discord_token_here'', str ''your_discord_user_token_here'',
                   str ''your_token_here'', str ''TOKEN_HERE'', str ''DISCORD_TOKEN'']"

definition dot :: code_unit where
  "dot = of_char CHR ''.''"

definition space :: code_unit where
  "space = of_char CHR '' ''"

definition dquote :: jsstring where
  "dquote = [of_char CHR 0x22]"

definition squote :: jsstring where
  "squote = [of_char CHR 0x27]"

text \<open>The regular expression \<open>/^[A-Za-z0-9+/=_-]+$/\<close>: one or more code units of the class.\<close>

definition base64_class :: "code_unit \<Rightarrow> bool" where
  "base64_class c =
     ((0x41 \<le> c \<and> c \<le> 0x5A) \<or> (0x61 \<le> c \<and> c \<le> 0x7A) \<or> (0x30 \<le> c \<and> c \<le> 0x39)
      \<or> c = of_char CHR ''+'' \<or> c = of_char CHR ''/'' \<or> c = of_char CHR ''=''
      \<or> c = of_char CHR ''_'' \<or> c = of_char CHR ''-'')"

definition base64Regex_test :: "jsstring \<Rightarrow> bool" where
  "base64Regex_test s = (s \<noteq> [] \<and> list_all base64_class s)"

text \<open>
  \<open>validateTokenStructure(parts, _errors, warnings)\<close> pushes onto the arrays it is given;
  the model returns both arrays as they are after the call.
\<close>

definition validateTokenStructure ::
  "jsstring list \<Rightarrow> jsstring list \<Rightarrow> jsstring list \<Rightarrow> jsstring list \<times> jsstring list" where
  "validateTokenStructure ps errs warns =
     (case ps of
        [userPart, timestampPart, signaturePart] \<Rightarrow>
          (let w1 = (if length userPart < 10
                     then warns @ [str ''First part (user ID) seems too short''] else warns);
               w2 = (if length timestampPart < 6
                     then w1 @ [str ''Second part (timestamp) seems too short''] else w1);
               w3 = (if length signaturePart < 20
                     then w2 @ [str ''Third part (signature) seems too short''] else w2);
               w4 = (if \<not> base64Regex_test userPart
                     then w3 @ [str ''First part contains invalid characters for base64'']
                     else w3);
               w5 = (if \<not> base64Regex_test timestampPart
                     then w4 @ [str ''Second part contains invalid characters for base64'']
                     else w4);
               w6 = (if \<not> base64Regex_test signaturePart
                     then w5 @ [str ''Third part contains invalid characters for base64'']
                     else w5)
           in (errs, w6))
      | _ \<Rightarrow> (errs, warns))"

definition tooShortError :: "nat \<Rightarrow> jsstring" where
  "tooShortError n = str ''Token is too short ('' @ show_nat n
       @ str '' characters). Discord tokens are typically 70+ characters''"

definition mightBeTooShortWarning :: "nat \<Rightarrow> jsstring" where
  "mightBeTooShortWarning n = str ''Token might be too short ('' @ show_nat n
       @ str '' characters). Discord tokens are typically 70+ characters''"

definition wrongPartsError :: "nat \<Rightarrow> jsstring" where
  "wrongPartsError n = str ''Token should have 3 parts separated by dots, found '' @ show_nat n"

definition tokenNotFound :: "string \<Rightarrow> 'j TokenValidationError" where
  "tokenNotFound m = \<lparr> message = str m, errType = TOKEN_NOT_FOUND, details = None \<rparr>"

text \<open>
  \<open>validateFormat\<close>: \<open>Inl\<close> is the thrown \<open>TokenValidationError\<close>, \<open>Inr\<close> the returned
  result. \<open>!token\<close> holds for \<open>null\<close>, \<open>undefined\<close> and the empty string.
\<close>

definition validateFormat ::
  "token_input \<Rightarrow> ('j, 'u) outcome" where
  "validateFormat input =
     (case input of
        Null \<Rightarrow> Inl (tokenNotFound ''Token is null or undefined'')
      | Undefined \<Rightarrow> Inl (tokenNotFound ''Token is null or undefined'')
      | Str token \<Rightarrow>
          if token = [] then Inl (tokenNotFound ''Token is null or undefined'')
          else
            let trimmedToken = trim token in
            if length trimmedToken = 0 then Inl (tokenNotFound ''Token is empty'')
            else
              let e1 = (if trimmedToken \<in> set placeholders
                        then [str ''Token is still using placeholder value''] else []);
                  tokenParts = split_on dot trimmedToken;
                  hasCorrectParts = (length tokenParts = 3);
                  e2 = (if \<not> hasCorrectParts
                        then e1 @ [wrongPartsError (length tokenParts)] else e1);
                  hasCorrectLength = (length trimmedToken \<ge> 50);
                  e3 = (if \<not> hasCorrectLength \<and> length trimmedToken < 30
                        then e2 @ [tooShortError (length trimmedToken)] else e2);
                  w1 = (if \<not> hasCorrectLength \<and> \<not> length trimmedToken < 30
                        then [mightBeTooShortWarning (length trimmedToken)] else []);
                  hasNoSpaces = (\<not> includes_unit trimmedToken space);
                  e4 = (if \<not> hasNoSpaces
                        then e3 @ [str ''Token contains spaces - remove all spaces''] else e3);
                  hasNoQuotes = (\<not> startsWith trimmedToken dquote \<and> \<not> endsWith trimmedToken dquote
                                 \<and> \<not> startsWith trimmedToken squote \<and> \<not> endsWith trimmedToken squote);
                  e5 = (if \<not> hasNoQuotes
                        then e4 @ [str ''Token has quotes - remove all quotes''] else e4);
                  isNotBotToken = (\<not> startsWith trimmedToken (str ''Bot ''));
                  e6 = (if \<not> isNotBotToken
                        then e5 @ [str ''This appears to be a BOT token. Self-bots require USER tokens'']
                        else e5);
                  (errs, warns) = validateTokenStructure tokenParts e6 w1
              in Inr \<lparr> isValid = (length errs = 0),
                       format = \<lparr> hasCorrectParts = hasCorrectParts,
                                  hasCorrectLength = hasCorrectLength,
                                  hasNoSpaces = hasNoSpaces,
                                  hasNoQuotes = hasNoQuotes,
                                  isNotBotToken = isNotBotToken \<rparr>,
                       api = None,
                       errors = errs,
                       warnings = warns,
                       metadata = \<lparr> length_md = length trimmedToken,
                                    parts = length tokenParts,
                                    source = src_direct \<rparr> \<rparr>)"

text \<open>The regular expression \<open>/^\d+$/\<close> (no unicode flag): one or more of \<open>0\<close>..\<open>9\<close>.\<close>

definition is_digit :: "code_unit \<Rightarrow> bool" where
  "is_digit c = (0x30 \<le> c \<and> c \<le> 0x39)"

definition digitRegex_test :: "jsstring \<Rightarrow> bool" where
  "digitRegex_test s = (s \<noteq> [] \<and> list_all is_digit s)"

text \<open>
  \<open>parseInt(s, 10)\<close> as ECMAScript defines it: leading white space is skipped, one sign is
  read, then the longest run of decimal digits; no digit gives \<open>NaN\<close> (here \<open>None\<close>),
  anything after the digits is ignored. The result is the mathematical integer; the
  Number the runtime returns is the double nearest to it.
\<close>

definition digits_value :: "jsstring \<Rightarrow> nat" where
  "digits_value ds = foldl (\<lambda>acc c. 10 * acc + (unat c - 48)) 0 ds"

definition parseInt10 :: "jsstring \<Rightarrow> int option" where
  "parseInt10 s =
     (let s1 = dropWhile is_ws s;
          negative = (s1 \<noteq> [] \<and> hd s1 = of_char CHR ''-'');
          s2 = (if s1 \<noteq> [] \<and> (hd s1 = of_char CHR ''+'' \<or> hd s1 = of_char CHR ''-'')
                then tl s1 else s1);
          z = takeWhile is_digit s2
      in if z = [] then None
         else Some ((if negative then - 1 else 1) * int (digits_value z)))"

text \<open>
  A \<open>Date\<close> object holds a time value in milliseconds, or \<open>NaN\<close> (an invalid date) when
  the number given to the constructor is outside \<open>\<plusminus>8.64e15\<close>. The source computes
  \<open>new Date(timestamp * 1000)\<close> in double arithmetic. Every integer up to \<open>2^53\<close> in
  magnitude is a double, rounding is monotone and \<open>8.64e15 < 2^53\<close>, so the product is
  within the range exactly when the mathematical product is, and is then exact.
\<close>

datatype js_date = Date int | InvalidDate

definition new_Date :: "int \<Rightarrow> js_date" where
  "new_Date tv = (if \<bar>tv\<bar> \<le> 8640000000000000 then Date tv else InvalidDate)"

text \<open>
  \<open>extractUserId\<close> and \<open>extractTimestamp\<close>. The parameter \<open>decode\<close> stands for the
  runtime's \<open>Buffer.from(part, 'base64').toString('utf-8')\<close>; it may throw (\<open>Inl\<close>), and
  the \<open>try\<close>/\<open>catch\<close> of the source turns that into \<open>null\<close> (here \<open>None\<close>).
\<close>

definition extractUserId :: "(jsstring \<Rightarrow> thrown + jsstring) \<Rightarrow> jsstring \<Rightarrow> jsstring option" where
  "extractUserId decode token =
     (let ps = split_on dot token in
      if length ps \<noteq> 3 then None
      else (case decode (ps ! 0) of
              Inl err \<Rightarrow> None
            | Inr decoded \<Rightarrow> if digitRegex_test decoded then Some decoded else None))"

definition extractTimestamp :: "(jsstring \<Rightarrow> thrown + jsstring) \<Rightarrow> jsstring \<Rightarrow> js_date option" where
  "extractTimestamp decode token =
     (let ps = split_on dot token in
      if length ps \<noteq> 3 then None
      else (case decode (ps ! 1) of
              Inl err \<Rightarrow> None
            | Inr decoded \<Rightarrow>
                (case parseInt10 decoded of
                   None \<Rightarrow> None
                 | Some timestamp \<Rightarrow> Some (new_Date (timestamp * 1000)))))"

section \<open>\<open>ApiValidator\<close>\<close>

text \<open>
  What the HTTPS layer delivers to \<open>makeApiRequest\<close>: the end of a response (status
  code, the \<open>retry-after\<close> header, the body text and what \<open>JSON.parse\<close> makes of it:
  \<open>Inl\<close> when it throws), an \<open>error\<close> event with the error's message, a \<open>timeout\<close>
  event, or an exception thrown while the request is set up, which rejects the promise
  with the thrown value.
\<close>

datatype 'j http_event =
    ResponseEnd int "jsstring option" jsstring "thrown + 'j"
  | RequestError jsstring
  | RequestTimeout
  | RequestThrew thrown

datatype 'j rejection = Classified "'j TokenValidationError" | Unclassified thrown

text \<open>
  An integer in a template literal (a status code, the timeout in milliseconds): its
  decimal digits, as JavaScript prints integers of magnitude below \<open>10^21\<close>.
\<close>

definition show_int :: "int \<Rightarrow> jsstring" where
  "show_int i = (if i < 0 then of_char CHR ''-'' # show_nat (nat (- i)) else show_nat (nat i))"

text \<open>A header value in a template literal: an absent header prints as \<open>undefined\<close>.\<close>

definition show_header :: "jsstring option \<Rightarrow> jsstring" where
  "show_header h = (case h of None \<Rightarrow> str ''undefined'' | Some v \<Rightarrow> v)"

definition parseFailure :: "thrown \<Rightarrow> jsstring \<Rightarrow> 'j TokenValidationError" where
  "parseFailure parseError data =
     \<lparr> message = str ''Failed to parse API response'', errType = API_ERROR,
       details = Some (no_details \<lparr> d_parseError := Some parseError, d_rawData := Some data \<rparr>) \<rparr>"

text \<open>
  \<open>makeApiRequest\<close>: \<open>Inr\<close> resolves the promise, \<open>Inl\<close> rejects it. \<open>parseUserInfo\<close>
  is the field mapping of the source; it throws on a body that has no properties
  (\<open>null\<close>), and that is caught by the same \<open>catch\<close> as a failure of \<open>JSON.parse\<close>.
\<close>

definition makeApiRequest ::
  "('j \<Rightarrow> thrown + 'u) \<Rightarrow> TokenCheckerConfig \<Rightarrow> 'j http_event \<Rightarrow> 'j rejection + 'u" where
  "makeApiRequest parseUserInfo config ev =
     (case ev of
        ResponseEnd status retryAfter data parsed \<Rightarrow>
          (case parsed of
             Inl parseError \<Rightarrow> Inl (Classified (parseFailure parseError data))
           | Inr response \<Rightarrow>
               if status = 200 then
                 (case parseUserInfo response of
                    Inl parseError \<Rightarrow> Inl (Classified (parseFailure parseError data))
                  | Inr info \<Rightarrow> Inr info)
               else if status = 401 then
                 Inl (Classified
                   \<lparr> message = str ''Token is invalid or expired'', errType = UNAUTHORIZED,
                     details = Some (no_details \<lparr> d_statusCode := Some 401,
                                                  d_response := Some response \<rparr>) \<rparr>)
               else if status = 429 then
                 Inl (Classified
                   \<lparr> message = str ''Rate limited. Retry after '' @ show_header retryAfter
                                 @ str '' seconds'',
                     errType = RATE_LIMITED,
                     details = Some (no_details \<lparr> d_statusCode := Some 429,
                                                  d_retryAfter := retryAfter,
                                                  d_response := Some response \<rparr>) \<rparr>)
               else if status = 403 then
                 Inl (Classified
                   \<lparr> message = str ''Access forbidden. Token may be valid but lacks permissions'',
                     errType = API_ERROR,
                     details = Some (no_details \<lparr> d_statusCode := Some 403,
                                                  d_response := Some response \<rparr>) \<rparr>)
               else
                 Inl (Classified
                   \<lparr> message = str ''API request failed with status '' @ show_int status,
                     errType = API_ERROR,
                     details = Some (no_details \<lparr> d_statusCode := Some status,
                                                  d_response := Some response \<rparr>) \<rparr>))
      | RequestError m \<Rightarrow>
          Inl (Classified
            \<lparr> message = str ''Network error: '' @ m, errType = NETWORK_ERROR,
              details = Some (no_details \<lparr> d_originalError := Some m \<rparr>) \<rparr>)
      | RequestTimeout \<Rightarrow>
          Inl (Classified
            \<lparr> message = str ''Request timeout after '' @ show_int (timeout config) @ str ''ms'',
              errType = NETWORK_ERROR,
              details = Some (no_details \<lparr> d_timeout := Some (timeout config) \<rparr>) \<rparr>)
      | RequestThrew x \<Rightarrow> Inl (Unclassified x))"

definition DEFAULT_TIMEOUT :: int where
  "DEFAULT_TIMEOUT = 10000"

definition DEFAULT_USER_AGENT :: jsstring where
  "DEFAULT_USER_AGENT = str ''DiscordTokenChecker/1.0.0''"

text \<open>
  \<open>validateWithApi\<close>, called with the checker's complete configuration. \<open>x || d\<close> takes
  \<open>d\<close> for a zero timeout or an empty user agent. The function catches every rejection
  of \<open>makeApiRequest\<close>; its own result is \<open>Inr\<close>, and \<open>Inl\<close> would be an exception
  leaving it.
\<close>

definition validateWithApi ::
  "('j \<Rightarrow> thrown + 'u) \<Rightarrow> TokenCheckerConfig \<Rightarrow> 'j http_event
     \<Rightarrow> thrown + 'u ApiValidationResponse" where
  "validateWithApi parseUserInfo config ev =
     (let finalConfig =
            \<lparr> checkApi = True,
              timeout = (if timeout config = 0 then DEFAULT_TIMEOUT else timeout config),
              includeUserInfo = includeUserInfo config,
              validateFormat_opt = validateFormat_opt config,
              userAgent = (case userAgent config of
                             None \<Rightarrow> Some DEFAULT_USER_AGENT
                           | Some ua \<Rightarrow> if ua = [] then Some DEFAULT_USER_AGENT else Some ua) \<rparr>
      in case makeApiRequest parseUserInfo finalConfig ev of
           Inr info \<Rightarrow>
             Inr \<lparr> success = True,
                   userInfo = (if includeUserInfo finalConfig then Some info else None),
                   error = None, statusCode = None, rateLimited = None \<rparr>
         | Inl (Classified e) \<Rightarrow>
             Inr \<lparr> success = False, userInfo = None, error = Some (message e),
                   statusCode = (case details e of None \<Rightarrow> None | Some d \<Rightarrow> d_statusCode d),
                   rateLimited = Some (errType e = RATE_LIMITED) \<rparr>
         | Inl (Unclassified x) \<Rightarrow>
             Inr \<lparr> success = False, userInfo = None,
                   error = Some (case x of ErrorObject m \<Rightarrow> m | NonError \<Rightarrow> str ''Unknown error''),
                   statusCode = None, rateLimited = None \<rparr>)"

section \<open>\<open>DiscordTokenChecker\<close>\<close>

text \<open>A string in a condition is true when it is present and not empty.\<close>

definition truthy :: "jsstring option \<Rightarrow> bool" where
  "truthy m = (case m of None \<Rightarrow> False | Some s \<Rightarrow> s \<noteq> [])"

text \<open>
  The second half of \<open>validateToken\<close> (from \<open>// Perform API validation if requested\<close>),
  on the result the first half has built.
\<close>

definition apiPhase ::
  "('j \<Rightarrow> thrown + 'u) \<Rightarrow> TokenCheckerConfig \<Rightarrow> ValidationMethod \<Rightarrow> 'j http_event
     \<Rightarrow> 'u TokenValidationResult \<Rightarrow> 'u TokenValidationResult" where
  "apiPhase parseUserInfo config method ev result =
     (if (method = method_api \<or> method = method_both) \<and> checkApi config then
        (case validateWithApi parseUserInfo config ev of
           Inr apiResult \<Rightarrow>
             (let apiInfo = \<lparr> isActive = success apiResult,
                              api_userInfo = userInfo apiResult,
                              api_error = (if truthy (error apiResult) then error apiResult else None) \<rparr>;
                  result1 = result \<lparr> api := Some apiInfo \<rparr>
              in if \<not> success apiResult then
                   result1 \<lparr> isValid := False,
                             errors := (if truthy (error apiResult)
                                        then errors result1
                                             @ [str ''API validation failed: '' @ the (error apiResult)]
                                        else errors result1) \<rparr>
                 else result1)
         | Inl x \<Rightarrow>
             (let m = (case x of ErrorObject m \<Rightarrow> m | NonError \<Rightarrow> str ''Unknown API error'')
              in result \<lparr> api := Some \<lparr> isActive = False, api_userInfo = None, api_error = Some m \<rparr>,
                          isValid := False,
                          errors := errors result @ [str ''API validation error: '' @ m] \<rparr>))
      else result)"

text \<open>
  \<open>validateToken\<close>: \<open>Inl\<close> is the \<open>TokenValidationError\<close> that \<open>validateFormat\<close> throws
  and nothing catches. \<open>ev\<close> is what the network does if a request is made.
\<close>

definition validateToken ::
  "('j \<Rightarrow> thrown + 'u) \<Rightarrow> TokenCheckerConfig \<Rightarrow> jsstring \<Rightarrow> TokenSource \<Rightarrow> ValidationMethod
     \<Rightarrow> 'j http_event \<Rightarrow> ('j, 'u) outcome" where
  "validateToken parseUserInfo config token src method ev =
     (if method = method_format \<or> method = method_both then
        (case validateFormat (Str token) of
           Inl e \<Rightarrow> Inl e
         | Inr r \<Rightarrow>
             (let result = r \<lparr> metadata := (metadata r) \<lparr> source := src \<rparr> \<rparr>
              in if \<not> isValid result \<and> method = method_format then Inr result
                 else Inr (apiPhase parseUserInfo config method ev result)))
      else
        (let result =
               \<lparr> isValid = True,
                 format = \<lparr> hasCorrectParts = True, hasCorrectLength = True, hasNoSpaces = True,
                            hasNoQuotes = True, isNotBotToken = True \<rparr>,
                 api = None, errors = [], warnings = [],
                 metadata = \<lparr> length_md = length token,
                              parts = length (split_on dot token),
                              source = src \<rparr> \<rparr>
         in Inr (apiPhase parseUserInfo config method ev result)))"

text \<open>\<open>quickFormatCheck\<close>: the \<open>catch\<close> takes every exception.\<close>

definition quickFormatCheck :: "token_input \<Rightarrow> bool" where
  "quickFormatCheck token =
     (case (validateFormat token :: (unit, unit) outcome) of
        Inl e \<Rightarrow> False
      | Inr result \<Rightarrow> isValid result)"

section \<open>The runtime's base64 and UTF-8 decoding\<close>

text \<open>
  \<open>Buffer.from(s, 'base64')\<close> is not code of the repository; this is the lenient
  decoder that Node.js documents: the standard and the URL-safe alphabet are both
  accepted, every code unit outside them is skipped, and decoding stops at the first
  \<open>=\<close>. Four sextets give three bytes; a last group of two
  or three sextets gives one or two bytes, a single left-over sextet gives none. Bytes are
  natural numbers below 256.
\<close>

definition pad :: code_unit where
  "pad = of_char CHR ''=''"

definition unbase64 :: "code_unit \<Rightarrow> nat option" where
  "unbase64 c =
     (let n = unat c in
      if 65 \<le> n \<and> n \<le> 90 then Some (n - 65)
      else if 97 \<le> n \<and> n \<le> 122 then Some (n - 71)
      else if 48 \<le> n \<and> n \<le> 57 then Some (n + 4)
      else if n = 43 \<or> n = 45 then Some 62
      else if n = 47 \<or> n = 95 then Some 63
      else None)"

definition base64_sextets :: "jsstring \<Rightarrow> nat list" where
  "base64_sextets s = List.map_filter unbase64 (takeWhile (\<lambda>c. c \<noteq> pad) s)"

fun sextets_to_bytes :: "nat list \<Rightarrow> nat list" where
  "sextets_to_bytes (a # b # c # d # r) =
     (a * 4 + b div 16) # ((b mod 16) * 16 + c div 4) # ((c mod 4) * 64 + d) # sextets_to_bytes r"
| "sextets_to_bytes [a, b, c] = [a * 4 + b div 16, (b mod 16) * 16 + c div 4]"
| "sextets_to_bytes [a, b] = [a * 4 + b div 16]"
| "sextets_to_bytes [a] = []"
| "sextets_to_bytes [] = []"

definition Buffer_from_base64 :: "jsstring \<Rightarrow> nat list" where
  "Buffer_from_base64 s = sextets_to_bytes (base64_sextets s)"

text \<open>
  \<open>buf.toString('utf-8')\<close>: the UTF-8 decoder of the Encoding Standard, which replaces
  every maximal ill-formed subsequence by U+FFFD; \<open>utf8_cont\<close> reads the continuation
  bytes of a sequence (how many are still needed, the code point so far, and the range
  allowed for the next byte). Code points above U+FFFF become surrogate pairs.
\<close>

function utf8_decode :: "nat list \<Rightarrow> nat list"
  and utf8_cont :: "nat \<Rightarrow> nat \<Rightarrow> nat \<Rightarrow> nat \<Rightarrow> nat list \<Rightarrow> nat list" where
  "utf8_decode [] = []"
| "utf8_decode (b # bs) =
     (if b \<le> 0x7F then b # utf8_decode bs
      else if 0xC2 \<le> b \<and> b \<le> 0xDF then utf8_cont 1 (b mod 32) 0x80 0xBF bs
      else if 0xE0 \<le> b \<and> b \<le> 0xEF then
        utf8_cont 2 (b mod 16) (if b = 0xE0 then 0xA0 else 0x80) (if b = 0xED then 0x9F else 0xBF) bs
      else if 0xF0 \<le> b \<and> b \<le> 0xF4 then
        utf8_cont 3 (b mod 8) (if b = 0xF0 then 0x90 else 0x80) (if b = 0xF4 then 0x8F else 0xBF) bs
      else 0xFFFD # utf8_decode bs)"
| "utf8_cont needed cp lower upper [] = [0xFFFD]"
| "utf8_cont needed cp lower upper (b # bs) =
     (if b < lower \<or> upper < b then 0xFFFD # utf8_decode (b # bs)
      else if needed \<le> 1 then (cp * 64 + b mod 64) # utf8_decode bs
      else utf8_cont (needed - 1) (cp * 64 + b mod 64) 0x80 0xBF bs)"
  by pat_completeness auto
termination
  by (relation "measure (\<lambda>x. case x of Inl bs \<Rightarrow> 2 * length bs
                                   | Inr (n, cp, lo, up, bs) \<Rightarrow> 2 * length bs + 1)") auto

definition utf16_units :: "nat \<Rightarrow> jsstring" where
  "utf16_units cp =
     (if cp < 0x10000 then [of_nat cp]
      else [of_nat (0xD800 + (cp - 0x10000) div 1024), of_nat (0xDC00 + (cp - 0x10000) mod 1024)])"

definition toString_utf8 :: "nat list \<Rightarrow> jsstring" where
  "toString_utf8 bs = concat (map utf16_units (utf8_decode bs))"

text \<open>The decoder that the extraction functions are run with; it never throws.\<close>

definition node_decode :: "jsstring \<Rightarrow> thrown + jsstring" where
  "node_decode s = Inr (toString_utf8 (Buffer_from_base64 s))"

section \<open>Encoding, for building tokens\<close>

text \<open>
  Base64 of RFC 4648 with the standard alphabet and padding, as
  \<open>Buffer.from(text).toString('base64')\<close> produces it, and the bytes of an ASCII text.
\<close>

definition b64char :: "nat \<Rightarrow> code_unit" where
  "b64char v = of_nat (if v < 26 then 65 + v else if v < 52 then 71 + v
                       else if v < 62 then v - 4 else if v = 62 then 43 else 47)"

fun base64_encode :: "nat list \<Rightarrow> jsstring" where
  "base64_encode (x # y # z # r) =
     b64char (x div 4) # b64char ((x mod 4) * 16 + y div 16)
       # b64char ((y mod 16) * 4 + z div 64) # b64char (z mod 64) # base64_encode r"
| "base64_encode [x, y] =
     [b64char (x div 4), b64char ((x mod 4) * 16 + y div 16), b64char ((y mod 16) * 4), pad]"
| "base64_encode [x] = [b64char (x div 4), b64char ((x mod 4) * 16), pad, pad]"
| "base64_encode [] = []"

definition ascii_bytes :: "jsstring \<Rightarrow> nat list" where
  "ascii_bytes s = map unat s"


section \<open>Closed forms used in the statements\<close>

definition primaryErrors :: "jsstring \<Rightarrow> jsstring list" where
  "primaryErrors t =
     (if t \<in> set placeholders then [str ''Token is still using placeholder value''] else [])
   @ (if length (split_on dot t) \<noteq> 3 then [wrongPartsError (length (split_on dot t))] else [])
   @ (if length t < 30 then [tooShortError (length t)] else [])
   @ (if includes_unit t space then [str ''Token contains spaces - remove all spaces''] else [])
   @ (if startsWith t dquote \<or> endsWith t dquote \<or> startsWith t squote \<or> endsWith t squote
      then [str ''Token has quotes - remove all quotes''] else [])
   @ (if startsWith t (str ''Bot '')
      then [str ''This appears to be a BOT token. Self-bots require USER tokens''] else [])"

definition lengthWarnings :: "jsstring \<Rightarrow> jsstring list" where
  "lengthWarnings t =
     (if 30 \<le> length t \<and> length t < 50 then [mightBeTooShortWarning (length t)] else [])"

definition structureWarnings :: "jsstring list \<Rightarrow> jsstring list" where
  "structureWarnings ps =
     (case ps of
        [userPart, timestampPart, signaturePart] \<Rightarrow>
            (if length userPart < 10 then [str ''First part (user ID) seems too short''] else [])
          @ (if length timestampPart < 6 then [str ''Second part (timestamp) seems too short''] else [])
          @ (if length signaturePart < 20 then [str ''Third part (signature) seems too short''] else [])
          @ (if \<not> base64Regex_test userPart
             then [str ''First part contains invalid characters for base64''] else [])
          @ (if \<not> base64Regex_test timestampPart
             then [str ''Second part contains invalid characters for base64''] else [])
          @ (if \<not> base64Regex_test signaturePart
             then [str ''Third part contains invalid characters for base64''] else [])
      | _ \<Rightarrow> [])"

section \<open>Sample inputs\<close>

text \<open>In the samples, parsed JSON values and user profiles are strings.\<close>

definition tok20 :: jsstring where
  "tok20 = str ''MTIzNDU2.MTcw.abcdef''"

definition tok46 :: jsstring where
  "tok46 = str ''MTIzNDU2Nzg5MDEy.MTcwMDAw.abcdefghijklmnopqrst''"

definition tok47 :: jsstring where
  "tok47 = str ''MTIzNDU2Nzg5MDEy.MTc.abcdefghi#klmnopqrstuvwxyz''"

definition tok69 :: jsstring where
  "tok69 = str ''MTIzNDU2Nzg5MDEyMzQ1Njc4.MTcwMDAwMDAwMA==.abcdefghijklmnopqrstuvwxyz0''"

definition res20 :: "jsstring TokenValidationResult" where
  "res20 = \<lparr> isValid = False,
             format = \<lparr> hasCorrectParts = True, hasCorrectLength = False, hasNoSpaces = True,
                        hasNoQuotes = True, isNotBotToken = True \<rparr>,
             api = None,
             errors = [str ''Token is too short (20 characters). Discord tokens are typically 70+ characters''],
             warnings = [str ''First part (user ID) seems too short'',
                         str ''Second part (timestamp) seems too short'',
                         str ''Third part (signature) seems too short''],
             metadata = \<lparr> length_md = 20, parts = 3, source = src_direct \<rparr> \<rparr>"

definition res46 :: "jsstring TokenValidationResult" where
  "res46 = \<lparr> isValid = True,
             format = \<lparr> hasCorrectParts = True, hasCorrectLength = False, hasNoSpaces = True,
                        hasNoQuotes = True, isNotBotToken = True \<rparr>,
             api = None, errors = [],
             warnings = [str ''Token might be too short (46 characters). Discord tokens are typically 70+ characters''],
             metadata = \<lparr> length_md = 46, parts = 3, source = src_direct \<rparr> \<rparr>"

definition res47 :: "jsstring TokenValidationResult" where
  "res47 = \<lparr> isValid = True,
             format = \<lparr> hasCorrectParts = True, hasCorrectLength = False, hasNoSpaces = True,
                        hasNoQuotes = True, isNotBotToken = True \<rparr>,
             api = None, errors = [],
             warnings = [str ''Token might be too short (47 characters). Discord tokens are typically 70+ characters'',
                         str ''Second part (timestamp) seems too short'',
                         str ''Third part contains invalid characters for base64''],
             metadata = \<lparr> length_md = 47, parts = 3, source = src_direct \<rparr> \<rparr>"

definition res69 :: "jsstring TokenValidationResult" where
  "res69 = \<lparr> isValid = True,
             format = \<lparr> hasCorrectParts = True, hasCorrectLength = True, hasNoSpaces = True,
                        hasNoQuotes = True, isNotBotToken = True \<rparr>,
             api = None, errors = [], warnings = [],
             metadata = \<lparr> length_md = 69, parts = 3, source = src_direct \<rparr> \<rparr>"

definition parse_ok :: "jsstring \<Rightarrow> thrown + jsstring" where
  "parse_ok body = Inr body"

definition cfg0 :: TokenCheckerConfig where
  "cfg0 = \<lparr> checkApi = True, timeout = 10000, includeUserInfo = True,
            validateFormat_opt = True, userAgent = Some DEFAULT_USER_AGENT \<rparr>"

definition ev200 :: "jsstring http_event" where
  "ev200 = ResponseEnd 200 None (str ''{}'') (Inr (str ''{}''))"

definition ev401 :: "jsstring http_event" where
  "ev401 = ResponseEnd 401 None (str ''{}'') (Inr (str ''{}''))"

definition ev403 :: "jsstring http_event" where
  "ev403 = ResponseEnd 403 None (str ''{}'') (Inr (str ''{}''))"

definition ev429 :: "jsstring http_event" where
  "ev429 = ResponseEnd 429 (Some (str ''5'')) (str ''{}'') (Inr (str ''{}''))"

definition ev500 :: "jsstring http_event" where
  "ev500 = ResponseEnd 500 None (str ''{}'') (Inr (str ''{}''))"

definition ev401_unparsable :: "jsstring http_event" where
  "ev401_unparsable =
     ResponseEnd 401 None (str ''<html>'') (Inl (ErrorObject (str ''Unexpected token'')))"

definition err401_unparsable :: "jsstring TokenValidationError" where
  "err401_unparsable =
     \<lparr> message = str ''Failed to parse API response'', errType = API_ERROR,
       details = Some \<lparr> d_statusCode = None, d_retryAfter = None, d_response = None,
                        d_parseError = Some (ErrorObject (str ''Unexpected token'')),
                        d_rawData = Some (str ''<html>''), d_originalError = None,
                        d_timeout = None \<rparr> \<rparr>"

definition res69_401 :: "jsstring TokenValidationResult" where
  "res69_401 = \<lparr> isValid = False,
             format = \<lparr> hasCorrectParts = True, hasCorrectLength = True, hasNoSpaces = True,
                        hasNoQuotes = True, isNotBotToken = True \<rparr>,
             api = Some \<lparr> isActive = False, api_userInfo = None,
                          api_error = Some (str ''Token is invalid or expired'') \<rparr>,
             errors = [str ''API validation failed: Token is invalid or expired''],
             warnings = [],
             metadata = \<lparr> length_md = 69, parts = 3, source = src_env \<rparr> \<rparr>"

definition res69_200 :: "jsstring TokenValidationResult" where
  "res69_200 = \<lparr> isValid = True,
             format = \<lparr> hasCorrectParts = True, hasCorrectLength = True, hasNoSpaces = True,
                        hasNoQuotes = True, isNotBotToken = True \<rparr>,
             api = Some \<lparr> isActive = True, api_userInfo = Some (str ''{}''), api_error = None \<rparr>,
             errors = [], warnings = [],
             metadata = \<lparr> length_md = 69, parts = 3, source = src_env \<rparr> \<rparr>"

definition tok_malformed :: jsstring where
  "tok_malformed = str ''Bot x y''"

definition res_api_401 :: "jsstring TokenValidationResult" where
  "res_api_401 = \<lparr> isValid = False,
             format = \<lparr> hasCorrectParts = True, hasCorrectLength = True, hasNoSpaces = True,
                        hasNoQuotes = True, isNotBotToken = True \<rparr>,
             api = Some \<lparr> isActive = False, api_userInfo = None,
                          api_error = Some (str ''Token is invalid or expired'') \<rparr>,
             errors = [str ''API validation failed: Token is invalid or expired''],
             warnings = [],
             metadata = \<lparr> length_md = 7, parts = 1, source = src_direct \<rparr> \<rparr>"

definition res_api_200 :: "jsstring TokenValidationResult" where
  "res_api_200 = \<lparr> isValid = True,
             format = \<lparr> hasCorrectParts = True, hasCorrectLength = True, hasNoSpaces = True,
                        hasNoQuotes = True, isNotBotToken = True \<rparr>,
             api = Some \<lparr> isActive = True, api_userInfo = Some (str ''{}''), api_error = None \<rparr>,
             errors = [], warnings = [],
             metadata = \<lparr> length_md = 7, parts = 1, source = src_direct \<rparr> \<rparr>"

definition userIdText :: jsstring where
  "userIdText = str ''123456789012345678''"

definition sig27 :: jsstring where
  "sig27 = str ''abcdefghijklmnopqrstuvwxyz0''"

definition tok_garbage :: jsstring where
  "tok_garbage = str ''!!!.???.x''"

definition tok_one_part :: jsstring where
  "tok_one_part = str ''not a token''"

definition decode_throws :: "jsstring \<Rightarrow> thrown + jsstring" where
  "decode_throws s = Inl (ErrorObject (str ''decoding failed''))"

section \<open>Strings\<close>

lemma str_Nil [simp]: "str [] = []"
  by (simp add: str_def)

lemma str_Cons [simp]: "str (c # cs) = of_char c # str cs"
  by (simp add: str_def)

lemma unat_of_char16: "unat (of_char c :: 16 word) = of_char c"
proof -
  have "(of_char c :: 16 word) = of_nat (of_char c)"
    by (simp add: of_nat_of_char)
  moreover have "(of_char c :: nat) < 2 ^ 16"
    by (rule less_trans [OF nat_of_char_less_256]) simp
  ultimately show ?thesis
    by (simp add: unat_of_nat)
qed

lemma of_char16_eq_iff [simp]: "(of_char c :: 16 word) = of_char d \<longleftrightarrow> c = d"
proof
  assume "(of_char c :: 16 word) = of_char d"
  then have "unat (of_char c :: 16 word) = unat (of_char d :: 16 word)" by simp
  then show "c = d" by (simp add: unat_of_char16)
qed simp

lemma trim_Nil: "trim [] = []"
  by (simp add: trim_def)

section \<open>The format validator in closed form\<close>

lemma if_push: "(if c then w @ [x] else w) = w @ (if c then [x] else [])"
  by simp

lemma list_shape:
  obtains "ps = []" | a where "ps = [a]" | a b where "ps = [a, b]"
    | a b c where "ps = [a, b, c]" | a b c d r where "ps = a # b # c # d # r"
  by (cases ps; cases "tl ps"; cases "tl (tl ps)"; cases "tl (tl (tl ps))") auto

lemma validateTokenStructure_eq:
  "validateTokenStructure ps e w = (e, w @ structureWarnings ps)"
proof (cases ps rule: list_shape)
  case (4 a b c)
  show ?thesis
    unfolding 4 validateTokenStructure_def structureWarnings_def
    by (simp only: list.case Let_def if_push append_assoc)
qed (simp_all only: validateTokenStructure_def structureWarnings_def list.case append_Nil2)

lemma cond_simps:
  "(\<not> 50 \<le> n \<and> n < 30) = (n < (30::nat))"
  "(\<not> 50 \<le> n \<and> \<not> n < 30) = (30 \<le> n \<and> n < (50::nat))"
  "(\<not> (\<not> a \<and> \<not> b \<and> \<not> c \<and> \<not> d)) = (a \<or> b \<or> c \<or> d)"
  by auto

lemma validateFormat_Str:
  assumes "trim token \<noteq> []"
  shows "validateFormat (Str token) =
     Inr \<lparr> isValid = (primaryErrors (trim token) = []),
           format = \<lparr> hasCorrectParts = (length (split_on dot (trim token)) = 3),
                      hasCorrectLength = (50 \<le> length (trim token)),
                      hasNoSpaces = (\<not> includes_unit (trim token) space),
                      hasNoQuotes = (\<not> startsWith (trim token) dquote \<and> \<not> endsWith (trim token) dquote
                                 \<and> \<not> startsWith (trim token) squote \<and> \<not> endsWith (trim token) squote),
                      isNotBotToken = (\<not> startsWith (trim token) (str ''Bot '')) \<rparr>,
           api = None,
           errors = primaryErrors (trim token),
           warnings = lengthWarnings (trim token) @ structureWarnings (split_on dot (trim token)),
           metadata = \<lparr> length_md = length (trim token),
                        parts = length (split_on dot (trim token)),
                        source = src_direct \<rparr> \<rparr>"
proof -
  from assms have ne: "token \<noteq> []" by (auto simp: trim_Nil)
  show ?thesis
    unfolding validateFormat_def primaryErrors_def lengthWarnings_def
    using assms ne
    by (simp only: token_input.case if_False Let_def validateTokenStructure_eq prod.case
          list.size(3) length_0_conv if_push not_not cond_simps append_assoc append_Nil)
qed

lemma validateFormat_empty:
  assumes "trim token = []"
  shows "validateFormat (Str token) =
           Inl (tokenNotFound (if token = [] then ''Token is null or undefined''
                               else ''Token is empty''))"
  using assms unfolding validateFormat_def by (simp add: Let_def)

lemma validateFormat_Inr_trim:
  assumes "validateFormat (Str token) = Inr r"
  shows "trim token \<noteq> []"
proof
  assume "trim token = []"
  with assms show False by (simp add: validateFormat_empty)
qed

lemma validateFormat_InrD:
  assumes "validateFormat (Str token) = Inr r"
  shows "trim token \<noteq> []"
    and "isValid r = (primaryErrors (trim token) = [])"
    and "errors r = primaryErrors (trim token)"
    and "warnings r = lengthWarnings (trim token) @ structureWarnings (split_on dot (trim token))"
    and "hasCorrectParts (format r) = (length (split_on dot (trim token)) = 3)"
    and "hasCorrectLength (format r) = (50 \<le> length (trim token))"
    and "hasNoSpaces (format r) = (\<not> includes_unit (trim token) space)"
    and "hasNoQuotes (format r) =
           (\<not> startsWith (trim token) dquote \<and> \<not> endsWith (trim token) dquote
            \<and> \<not> startsWith (trim token) squote \<and> \<not> endsWith (trim token) squote)"
    and "isNotBotToken (format r) = (\<not> startsWith (trim token) (str ''Bot ''))"
    and "api r = None"
    and "metadata r = \<lparr> length_md = length (trim token),
                          parts = length (split_on dot (trim token)), source = src_direct \<rparr>"
proof -
  show ne: "trim token \<noteq> []" using assms by (rule validateFormat_Inr_trim)
  note r = assms [symmetric]
  show "isValid r = (primaryErrors (trim token) = [])"
    using r by (simp only: validateFormat_Str [OF ne] sum.inject) simp
  show "errors r = primaryErrors (trim token)"
    using r by (simp only: validateFormat_Str [OF ne] sum.inject) simp
  show "warnings r = lengthWarnings (trim token) @ structureWarnings (split_on dot (trim token))"
    using r by (simp only: validateFormat_Str [OF ne] sum.inject) simp
  show "hasCorrectParts (format r) = (length (split_on dot (trim token)) = 3)"
    using r by (simp only: validateFormat_Str [OF ne] sum.inject) simp
  show "hasCorrectLength (format r) = (50 \<le> length (trim token))"
    using r by (simp only: validateFormat_Str [OF ne] sum.inject) simp
  show "hasNoSpaces (format r) = (\<not> includes_unit (trim token) space)"
    using r by (simp only: validateFormat_Str [OF ne] sum.inject) simp
  show "hasNoQuotes (format r) =
           (\<not> startsWith (trim token) dquote \<and> \<not> endsWith (trim token) dquote
            \<and> \<not> startsWith (trim token) squote \<and> \<not> endsWith (trim token) squote)"
    using r by (simp only: validateFormat_Str [OF ne] sum.inject) simp
  show "isNotBotToken (format r) = (\<not> startsWith (trim token) (str ''Bot ''))"
    using r by (simp only: validateFormat_Str [OF ne] sum.inject) (simp del: str_Cons)
  show "api r = None"
    using r by (simp only: validateFormat_Str [OF ne] sum.inject) simp
  show "metadata r = \<lparr> length_md = length (trim token),
                          parts = length (split_on dot (trim token)), source = src_direct \<rparr>"
    using r by (simp only: validateFormat_Str [OF ne] sum.inject) simp
qed

lemma primaryErrors_Nil_iff:
  "primaryErrors t = [] \<longleftrightarrow>
     t \<notin> set placeholders \<and> length (split_on dot t) = 3 \<and> 30 \<le> length t
     \<and> \<not> includes_unit t space
     \<and> (\<not> startsWith t dquote \<and> \<not> endsWith t dquote \<and> \<not> startsWith t squote \<and> \<not> endsWith t squote)
     \<and> \<not> startsWith t (str ''Bot '')"
  unfolding primaryErrors_def by (auto simp del: str_Cons)

section \<open>Messages are told apart by their first characters\<close>

lemma tooShort_not_primary_other:
  "tooShortError k \<noteq> str ''Token is still using placeholder value''"
  "tooShortError k \<noteq> wrongPartsError j"
  "tooShortError k \<noteq> str ''Token contains spaces - remove all spaces''"
  "tooShortError k \<noteq> str ''Token has quotes - remove all quotes''"
  "tooShortError k \<noteq> str ''This appears to be a BOT token. Self-bots require USER tokens''"
  by (simp_all add: tooShortError_def wrongPartsError_def del: of_char_Char)

lemma tooShort_in_primary:
  "tooShortError k \<in> set (primaryErrors t)
     \<longleftrightarrow> length t < 30 \<and> tooShortError k = tooShortError (length t)"
  unfolding primaryErrors_def
  by (auto simp add: tooShort_not_primary_other simp del: str_Cons)

lemma mightBeTooShort_not_structure:
  "mightBeTooShortWarning k \<notin> set (structureWarnings ps)"
proof (cases ps rule: list_shape)
  case (4 a b c)
  show ?thesis
    unfolding 4 structureWarnings_def
    by (simp add: mightBeTooShortWarning_def del: of_char_Char)
qed (simp_all add: structureWarnings_def)

lemma mightBeTooShort_in_lengthWarnings:
  "mightBeTooShortWarning k \<in> set (lengthWarnings t)
     \<longleftrightarrow> 30 \<le> length t \<and> length t < 50 \<and> mightBeTooShortWarning k = mightBeTooShortWarning (length t)"
  by (auto simp add: lengthWarnings_def)

section \<open>The validator on the sample inputs\<close>

lemmas eval_defs =
  validateFormat_def Let_def trim_def is_ws_def dot_def space_def
  placeholders_def includes_unit_def startsWith_def endsWith_def dquote_def squote_def
  validateTokenStructure_def base64Regex_test_def base64_class_def
  mightBeTooShortWarning_def tooShortError_def wrongPartsError_def
  show_nat.simps digit_unit_def

lemma eval20: "(validateFormat (Str tok20) :: (jsstring, jsstring) outcome) = Inr res20"
  by (simp add: eval_defs tok20_def res20_def)

lemma eval46: "(validateFormat (Str tok46) :: (jsstring, jsstring) outcome) = Inr res46"
  by (simp add: eval_defs tok46_def res46_def)

lemma eval47: "(validateFormat (Str tok47) :: (jsstring, jsstring) outcome) = Inr res47"
  by (simp add: eval_defs tok47_def res47_def)

lemma eval69: "(validateFormat (Str tok69) :: (jsstring, jsstring) outcome) = Inr res69"
  by (simp add: eval_defs tok69_def res69_def)


lemma len20: "length (trim tok20) = 20" by (simp add: tok20_def trim_def is_ws_def)
lemma len46: "length (trim tok46) = 46" by (simp add: tok46_def trim_def is_ws_def)
lemma len69: "length (trim tok69) = 69" by (simp add: tok69_def trim_def is_ws_def)

lemma structure_membership:
  "str ''First part (user ID) seems too short'' \<in> set (lengthWarnings t @ structureWarnings [p1, p2, p3])
     \<longleftrightarrow> length p1 < 10"
  "str ''Second part (timestamp) seems too short'' \<in> set (lengthWarnings t @ structureWarnings [p1, p2, p3])
     \<longleftrightarrow> length p2 < 6"
  "str ''Third part (signature) seems too short'' \<in> set (lengthWarnings t @ structureWarnings [p1, p2, p3])
     \<longleftrightarrow> length p3 < 20"
  "str ''First part contains invalid characters for base64'' \<in> set (lengthWarnings t @ structureWarnings [p1, p2, p3])
     \<longleftrightarrow> \<not> base64Regex_test p1"
  "str ''Second part contains invalid characters for base64'' \<in> set (lengthWarnings t @ structureWarnings [p1, p2, p3])
     \<longleftrightarrow> \<not> base64Regex_test p2"
  "str ''Third part contains invalid characters for base64'' \<in> set (lengthWarnings t @ structureWarnings [p1, p2, p3])
     \<longleftrightarrow> \<not> base64Regex_test p3"
  by (simp_all add: structureWarnings_def lengthWarnings_def mightBeTooShortWarning_def del: of_char_Char)

lemma split47: "split_on dot (trim tok47) = [str ''MTIzNDU2Nzg5MDEy'', str ''MTc'', str ''abcdefghi#klmnopqrstuvwxyz'']"
  by (simp add: tok47_def trim_def is_ws_def dot_def)

lemma validateFormat_absent:
  assumes "t = Null \<or> t = Undefined \<or> (\<exists>s. t = Str s \<and> trim s = [])"
  shows "\<exists>m. validateFormat t = Inl (tokenNotFound m)"
proof -
  from assms consider "t = Null" | "t = Undefined" | s where "t = Str s" "trim s = []"
    by blast
  then show ?thesis
  proof cases
    case 1
    then show ?thesis by (auto simp add: validateFormat_def)
  next
    case 2
    then show ?thesis by (auto simp add: validateFormat_def)
  next
    case 3
    then show ?thesis by (simp only: validateFormat_empty) blast
  qed
qed

lemma tok46_ne: "tok46 \<noteq> []" by (simp add: tok46_def)
lemma tok20_ne: "tok20 \<noteq> []" by (simp add: tok20_def)

section \<open>The API validator and the orchestrator: auxiliary facts\<close>

lemma makeApiRequest_message_nonempty:
  assumes "makeApiRequest pui config ev = Inl (Classified e)"
  shows "message e \<noteq> []"
  using assms
  by (auto simp add: makeApiRequest_def parseFailure_def simp del: of_char_Char
      split: http_event.splits sum.splits if_splits)

lemma makeApiRequest_Unclassified:
  assumes "makeApiRequest pui config ev = Inl (Unclassified x)"
  shows "ev = RequestThrew x"
  using assms
  by (auto simp add: makeApiRequest_def split: http_event.splits sum.splits if_splits)

lemma validateWithApi_Inr: "\<exists>a. validateWithApi pui config ev = Inr a"
  by (simp add: validateWithApi_def Let_def split: sum.splits rejection.splits)

lemma validateWithApi_success:
  assumes "validateWithApi pui config ev = Inr a" and "success a"
  shows "error a = None"
  using assms
  by (auto simp add: validateWithApi_def Let_def split: sum.splits rejection.splits)

lemma validateWithApi_failure:
  assumes "validateWithApi pui config ev = Inr a" and "\<not> success a"
  shows "userInfo a = None" and "\<exists>m. error a = Some m"
    and "(\<forall>x. ev \<noteq> RequestThrew x) \<longrightarrow> (\<exists>m. m \<noteq> [] \<and> error a = Some m)"
  using assms
  by (auto simp add: validateWithApi_def Let_def
      dest: makeApiRequest_message_nonempty makeApiRequest_Unclassified
      split: sum.splits rejection.splits)

lemmas api_eval_defs =
  validateWithApi_def makeApiRequest_def Let_def parse_ok_def cfg0_def no_details_def
  parseFailure_def show_header_def show_int_def DEFAULT_TIMEOUT_def DEFAULT_USER_AGENT_def

lemma api200: "validateWithApi parse_ok cfg0 ev200 =
      Inr \<lparr> success = True, userInfo = Some (str ''{}''), error = None, statusCode = None,
            rateLimited = None \<rparr>"
  by (simp add: api_eval_defs ev200_def)

lemma api401: "validateWithApi parse_ok cfg0 ev401 =
      Inr \<lparr> success = False, userInfo = None, error = Some (str ''Token is invalid or expired''),
            statusCode = Some 401, rateLimited = Some False \<rparr>"
  by (simp add: api_eval_defs ev401_def)

lemma validateFormat_Inr_any:
  assumes "validateFormat (Str token) = Inr (f :: 'u TokenValidationResult)"
  shows "(validateFormat (Str token) :: ('k, 'u) outcome) = Inr f"
proof -
  have ne: "trim token \<noteq> []" using assms by (rule validateFormat_Inr_trim)
  from assms [symmetric] show ?thesis
    by (simp only: validateFormat_Str [OF ne] sum.inject)
qed

lemma apiPhase_checked:
  assumes "checkApi config" and "mth = method_api \<or> mth = method_both"
    and "validateWithApi pui config ev = Inr a"
  shows "isValid (apiPhase pui config mth ev res) = (isValid res \<and> success a)"
    and "success a \<Longrightarrow> errors (apiPhase pui config mth ev res) = errors res"
    and "\<not> success a \<Longrightarrow> error a = Some m \<Longrightarrow> m \<noteq> [] \<Longrightarrow>
           errors (apiPhase pui config mth ev res)
             = errors res @ [str ''API validation failed: '' @ m]"
    and "format (apiPhase pui config mth ev res) = format res"
    and "warnings (apiPhase pui config mth ev res) = warnings res"
  using assms by (auto simp add: apiPhase_def Let_def truthy_def simp del: str_Cons)

lemma apiPhase_unchecked:
  assumes "\<not> checkApi config"
  shows "apiPhase pui config mth ev res = res"
  using assms by (simp add: apiPhase_def)

lemma cfg0_checkApi: "checkApi cfg0"
  by (simp add: cfg0_def)

lemma both401: "validateToken parse_ok cfg0 tok69 src_env method_both ev401 = Inr res69_401"
  by (simp add: validateToken_def eval69 apiPhase_def api401 cfg0_checkApi truthy_def Let_def
      res69_def res69_401_def)

lemma both200: "validateToken parse_ok cfg0 tok69 src_env method_both ev200 = Inr res69_200"
  by (simp add: validateToken_def eval69 apiPhase_def api200 cfg0_checkApi truthy_def Let_def
      res69_def res69_200_def)

lemma api_only_401:
  "validateToken parse_ok cfg0 tok_malformed src_direct method_api ev401 = Inr res_api_401"
  by (simp add: validateToken_def apiPhase_def api401 cfg0_checkApi truthy_def Let_def
      res_api_401_def tok_malformed_def dot_def)

lemma api_only_200:
  "validateToken parse_ok cfg0 tok_malformed src_direct method_api ev200 = Inr res_api_200"
  by (simp add: validateToken_def apiPhase_def api200 cfg0_checkApi truthy_def Let_def
      res_api_200_def tok_malformed_def dot_def)

section \<open>Splitting\<close>

lemma split_on_no_sep:
  assumes "sep \<notin> set s"
  shows "split_on sep s = [s]"
  using assms by (induction s) auto

lemma split_on_append:
  assumes "sep \<notin> set a"
  shows "split_on sep (a @ sep # r) = a # split_on sep r"
  using assms
proof (induction a)
  case Nil
  then show ?case by simp
next
  case (Cons c a)
  then show ?case by (cases "split_on sep r") auto
qed

lemma split_three:
  assumes "sep \<notin> set a" and "sep \<notin> set b" and "sep \<notin> set c"
  shows "split_on sep (a @ sep # b @ sep # c) = [a, b, c]"
  using assms by (simp add: split_on_append split_on_no_sep)

section \<open>Code units from small numbers\<close>

lemma unat_of_nat16:
  assumes "k < 65536"
  shows "unat (of_nat k :: 16 word) = k"
  using assms by (simp add: unat_of_nat)

lemma unat_of_char16_num:
  "unat (pad) = 61" "unat dot = 46"
  by (simp_all add: pad_def dot_def)

lemma unat_b64char:
  "unat (b64char v) = (if v < 26 then 65 + v else if v < 52 then 71 + v
                       else if v < 62 then v - 4 else if v = 62 then 43 else 47)"
  unfolding b64char_def by (rule unat_of_nat16) auto

lemma b64char_not_special: "b64char v \<noteq> pad" "b64char v \<noteq> dot"
proof -
  have "unat (b64char v) \<noteq> 61" "unat (b64char v) \<noteq> 46"
    by (auto simp add: unat_b64char)
  then show "b64char v \<noteq> pad" "b64char v \<noteq> dot"
    using unat_of_char16_num by auto
qed

lemma unbase64_b64char:
  assumes "v < 64"
  shows "unbase64 (b64char v) = Some v"
  using assms by (auto simp add: unbase64_def unat_b64char Let_def)

section \<open>Base64 round trip\<close>

lemma base64_sextets_simps:
  "base64_sextets [] = []"
  "base64_sextets (pad # s) = []"
  "v < 64 \<Longrightarrow> base64_sextets (b64char v # s) = v # base64_sextets s"
  by (simp_all add: base64_sextets_def List.map_filter_simps b64char_not_special unbase64_b64char)

lemma sextet_bounds:
  fixes x y z :: nat
  assumes "x < 256" "y < 256" "z < 256"
  shows "x div 4 < 64" "(x mod 4) * 16 + y div 16 < 64" "(y mod 16) * 4 + z div 64 < 64"
    "z mod 64 < 64" "(y mod 16) * 4 < 64" "(x mod 4) * 16 < 64"
  using assms by simp_all

lemma sextet_join1:
  fixes x y :: nat
  assumes "y < 256"
  shows "(x div 4) * 4 + ((x mod 4) * 16 + y div 16) div 16 = x"
proof -
  have "y div 16 < 16" using assms by simp
  then have "((x mod 4) * 16 + y div 16) div 16 = x mod 4" by simp
  then show ?thesis by simp
qed

lemma sextet_join2:
  fixes x y z :: nat
  assumes "y < 256" "z < 256"
  shows "(((x mod 4) * 16 + y div 16) mod 16) * 16 + ((y mod 16) * 4 + z div 64) div 4 = y"
proof -
  have "y div 16 < 16" using assms by simp
  then have a: "((x mod 4) * 16 + y div 16) mod 16 = y div 16" by simp
  have "z div 64 < 4" using assms by simp
  then have b: "((y mod 16) * 4 + z div 64) div 4 = y mod 16" by simp
  show ?thesis unfolding a b by simp
qed

lemma sextet_join3:
  fixes y z :: nat
  assumes "z < 256"
  shows "(((y mod 16) * 4 + z div 64) mod 4) * 64 + z mod 64 = z"
proof -
  have "z div 64 < 4" using assms by simp
  then have a: "((y mod 16) * 4 + z div 64) mod 4 = z div 64" by simp
  show ?thesis unfolding a by simp
qed

lemma Buffer_from_base64_encode:
  assumes "\<forall>b \<in> set bs. b < 256"
  shows "Buffer_from_base64 (base64_encode bs) = bs"
  using assms
proof (induction bs rule: base64_encode.induct)
  case (1 x y z r)
  then have b: "x < 256" "y < 256" "z < 256" and r: "\<forall>b \<in> set r. b < 256" by simp_all
  from 1 r have ih: "sextets_to_bytes (base64_sextets (base64_encode r)) = r"
    by (simp add: Buffer_from_base64_def)
  have "base64_sextets (base64_encode (x # y # z # r)) =
          x div 4 # ((x mod 4) * 16 + y div 16) # ((y mod 16) * 4 + z div 64) # z mod 64
            # base64_sextets (base64_encode r)"
    by (simp only: base64_encode.simps base64_sextets_simps sextet_bounds [OF b])
  then show ?case
    by (simp only: Buffer_from_base64_def sextets_to_bytes.simps ih
          sextet_join1 [OF b(2)] sextet_join2 [OF b(2,3)] sextet_join3 [OF b(3)])
next
  case (2 x y)
  then have b: "x < 256" "y < 256" by simp_all
  have "base64_sextets (base64_encode [x, y]) =
          [x div 4, (x mod 4) * 16 + y div 16, (y mod 16) * 4]"
    by (simp only: base64_encode.simps base64_sextets_simps sextet_bounds [OF b b(1)])
  moreover have "(((x mod 4) * 16 + y div 16) mod 16) * 16 + ((y mod 16) * 4) div 4 = y"
    using sextet_join2 [OF b(2), of 0 x] by simp
  ultimately show ?case
    by (simp only: Buffer_from_base64_def sextets_to_bytes.simps sextet_join1 [OF b(2)])
next
  case (3 x)
  then have b: "x < 256" by simp
  have "base64_sextets (base64_encode [x]) = [x div 4, (x mod 4) * 16]"
    by (simp only: base64_encode.simps base64_sextets_simps sextet_bounds [OF b b b])
  moreover have "(x div 4) * 4 + ((x mod 4) * 16) div 16 = x"
    using sextet_join1 [of 0 x] by simp
  ultimately show ?case
    by (simp only: Buffer_from_base64_def sextets_to_bytes.simps)
next
  case 4
  show ?case by (simp add: Buffer_from_base64_def base64_sextets_simps)
qed

lemma dot_notin_base64_encode: "dot \<notin> set (base64_encode bs)"
proof (induction bs rule: base64_encode.induct)
  case (1 x y z r)
  then show ?case using b64char_not_special(2) by (simp add: eq_commute [of dot])
next
  case (2 x y)
  have "dot \<noteq> pad" by (simp add: dot_def pad_def)
  then show ?case using b64char_not_special(2) by (simp add: eq_commute [of dot])
next
  case (3 x)
  have "dot \<noteq> pad" by (simp add: dot_def pad_def)
  then show ?case using b64char_not_special(2) by (simp add: eq_commute [of dot])
next
  case 4
  show ?case by simp
qed

section \<open>ASCII text\<close>

lemma utf8_decode_ascii:
  assumes "\<forall>b \<in> set bs. b < 128"
  shows "utf8_decode bs = bs"
  using assms by (induction bs) auto

lemma toString_utf8_ascii:
  assumes "\<forall>c \<in> set s. unat c < 128"
  shows "toString_utf8 (ascii_bytes s) = s"
proof -
  have "utf8_decode (ascii_bytes s) = ascii_bytes s"
    using assms by (intro utf8_decode_ascii) (auto simp add: ascii_bytes_def)
  moreover have "concat (map utf16_units (map unat s)) = s"
    using assms by (induction s) (auto simp add: utf16_units_def)
  ultimately show ?thesis
    by (simp add: toString_utf8_def ascii_bytes_def)
qed

lemma node_decode_base64_ascii:
  assumes "\<forall>c \<in> set s. unat c < 128"
  shows "node_decode (base64_encode (ascii_bytes s)) = Inr s"
proof -
  have "\<forall>b \<in> set (ascii_bytes s). b < 256"
    using assms by (auto simp add: ascii_bytes_def)
  then show ?thesis
    by (simp add: node_decode_def Buffer_from_base64_encode toString_utf8_ascii [OF assms])
qed

section \<open>Decimal digits\<close>

lemma is_digit_unat: "is_digit c \<longleftrightarrow> 48 \<le> unat c \<and> unat c \<le> 57"
  by (simp add: is_digit_def word_le_nat_alt)

lemma unat_digit_unit:
  assumes "d < 10"
  shows "unat (digit_unit d) = 48 + d"
  unfolding digit_unit_def using assms by (intro unat_of_nat16) simp

lemma is_digit_digit_unit:
  assumes "d < 10"
  shows "is_digit (digit_unit d)"
  using assms by (simp add: is_digit_unat unat_digit_unit)

lemma is_ws_unat:
  "is_ws c \<longleftrightarrow> unat c \<in> {9, 10, 11, 12, 13, 32, 160, 5760, 8232, 8233, 8239, 8287, 12288, 65279}
                \<or> (8192 \<le> unat c \<and> unat c \<le> 8202)"
  by (simp add: is_ws_def word_le_nat_alt word_unat_eq_iff)

lemma digit_not_special:
  assumes "is_digit c"
  shows "\<not> is_ws c" and "c \<noteq> of_char CHR ''+''" and "c \<noteq> of_char CHR ''-''" and "unat c < 128"
  using assms by (auto simp add: is_digit_unat is_ws_unat)

lemma show_nat_digits: "show_nat n \<noteq> [] \<and> (\<forall>c \<in> set (show_nat n). is_digit c)"
proof (induction n rule: show_nat.induct)
  case (1 n)
  show ?case
  proof (cases "n < 10")
    case True
    then show ?thesis by (simp add: show_nat.simps [of n] is_digit_digit_unit)
  next
    case False
    with 1 show ?thesis by (simp add: show_nat.simps [of n] is_digit_digit_unit)
  qed
qed

lemma digits_value_snoc:
  "digits_value (ds @ [c]) = 10 * digits_value ds + (unat c - 48)"
  by (simp add: digits_value_def)

lemma digits_value_show_nat: "digits_value (show_nat n) = n"
proof (induction n rule: show_nat.induct)
  case (1 n)
  show ?case
  proof (cases "n < 10")
    case True
    then show ?thesis
      by (simp add: show_nat.simps [of n] digits_value_def unat_digit_unit)
  next
    case False
    with 1 have "digits_value (show_nat (n div 10)) = n div 10" by simp
    with False show ?thesis
      by (simp add: show_nat.simps [of n] digits_value_snoc unat_digit_unit)
  qed
qed

lemma takeWhile_all:
  assumes "\<forall>c \<in> set s. P c"
  shows "takeWhile P s = s"
  using assms by (induction s) auto

lemma parseInt10_show_nat: "parseInt10 (show_nat n) = Some (int n)"
proof -
  obtain c r where s: "show_nat n = c # r" and c: "is_digit c" and r: "\<forall>c \<in> set r. is_digit c"
    using show_nat_digits [of n] by (cases "show_nat n") auto
  have z: "takeWhile is_digit (c # r) = c # r"
    using c r by (intro takeWhile_all) auto
  have v: "digits_value (c # r) = n"
    using digits_value_show_nat [of n] s by simp
  show ?thesis
    unfolding parseInt10_def s
    using digit_not_special [OF c] z v by (simp add: Let_def)
qed

lemma minus_not_ws: "\<not> is_ws (of_char CHR ''-'')"
  by (simp add: is_ws_def)

lemma parseInt10_minus_show_nat:
  "parseInt10 (of_char CHR ''-'' # show_nat n) = Some (- int n)"
proof -
  obtain c r where s: "show_nat n = c # r" and c: "is_digit c" and r: "\<forall>c \<in> set r. is_digit c"
    using show_nat_digits [of n] by (cases "show_nat n") auto
  have z: "takeWhile is_digit r = r"
    using r by (rule takeWhile_all)
  have v: "digits_value (c # r) = n"
    using digits_value_show_nat [of n] s by simp
  show ?thesis
    unfolding parseInt10_def s
    using minus_not_ws c v by (simp add: Let_def z del: of_char_Char)
qed

lemma parseInt10_show_int: "parseInt10 (show_int i) = Some i"
  by (simp add: show_int_def parseInt10_show_nat parseInt10_minus_show_nat del: of_char_Char)

lemma show_int_ascii: "\<forall>c \<in> set (show_int i). unat c < 128"
  using show_nat_digits digit_not_special(4)
  by (auto simp add: show_int_def)

section \<open>The extraction functions on the sample inputs\<close>

lemma userIdText_ascii: "\<forall>c \<in> set userIdText. unat c < 128"
  by (simp add: userIdText_def)

lemma userIdText_digits: "digitRegex_test userIdText"
  by (simp add: userIdText_def digitRegex_test_def is_digit_def)

lemmas decode_eval_defs =
  node_decode_def Buffer_from_base64_def base64_sextets_def unbase64_def pad_def
  List.map_filter_simps toString_utf8_def utf16_units_def

lemma build_tok69:
  "base64_encode (ascii_bytes userIdText) @ dot
     # base64_encode (ascii_bytes (show_int 1700000000)) @ dot # sig27 = tok69"
  by (simp add: userIdText_def ascii_bytes_def show_int_def show_nat.simps digit_unit_def
      b64char_def pad_def dot_def sig27_def tok69_def)

lemma sig27_no_dot: "dot \<notin> set sig27"
  by (simp add: sig27_def dot_def)

lemma split_one_part: "length (split_on dot tok_one_part) = 1"
  by (simp add: tok_one_part_def dot_def)

lemma split_garbage: "split_on dot tok_garbage = [str ''!!!'', str ''???'', str ''x'']"
  by (simp add: tok_garbage_def dot_def)

lemma decode_garbage: "node_decode (str ''!!!'') = Inr []" "node_decode (str ''???'') = Inr []"
  by (simp_all add: decode_eval_defs)

lemma split_tok69_parts:
  "split_on dot tok69 = [str ''MTIzNDU2Nzg5MDEyMzQ1Njc4'', str ''MTcwMDAwMDAwMA=='', sig27]"
  by (simp add: tok69_def dot_def sig27_def)

lemma decode_tok69_parts:
  "node_decode (str ''MTIzNDU2Nzg5MDEyMzQ1Njc4'') = Inr (str ''123456789012345678'')"
  "node_decode (str ''MTcwMDAwMDAwMA=='') = Inr (str ''1700000000'')"
  by (simp_all add: decode_eval_defs)

lemma parse_1700000000: "parseInt10 (str ''1700000000'') = Some 1700000000"
  by (simp add: parseInt10_def is_ws_def is_digit_def digits_value_def Let_def)

section \<open>Claims about the format validator\<close>

text \<open>
  Claim C2. For a token string that is not empty, \<open>validateFormat\<close> either throws
  \<open>Token is empty\<close> (the token is all white space) or returns a result whose \<open>isValid\<close> is
  true exactly when the list of hard errors is empty. The warnings play no part: any two
  results with the same errors have the same \<open>isValid\<close>, whatever their warnings are.
\<close>

theorem validateFormat_isValid_iff_no_errors:
  assumes "token \<noteq> []"
  shows "(trim token = []
          \<and> (validateFormat (Str token) :: ('j, 'u) outcome)
              = Inl (tokenNotFound ''Token is empty''))
       \<or> (trim token \<noteq> []
          \<and> (\<exists>r. (validateFormat (Str token) :: ('j, 'u) outcome) = Inr r
                 \<and> (isValid r \<longleftrightarrow> errors r = [])
                 \<and> (\<forall>token' r'.
                        (validateFormat (Str token') :: ('j, 'u) outcome) = Inr r'
                          \<and> errors r' = errors r
                        \<longrightarrow> isValid r' = isValid r)))"
proof (cases "trim token = []")
  case True
  with assms show ?thesis by (simp add: validateFormat_empty)
next
  case False
  define r :: "'u TokenValidationResult" where "r = \<lparr> isValid = (primaryErrors (trim token) = []),
           format = \<lparr> hasCorrectParts = (length (split_on dot (trim token)) = 3),
                      hasCorrectLength = (50 \<le> length (trim token)),
                      hasNoSpaces = (\<not> includes_unit (trim token) space),
                      hasNoQuotes = (\<not> startsWith (trim token) dquote \<and> \<not> endsWith (trim token) dquote
                                 \<and> \<not> startsWith (trim token) squote \<and> \<not> endsWith (trim token) squote),
                      isNotBotToken = (\<not> startsWith (trim token) (str ''Bot '')) \<rparr>,
           api = None,
           errors = primaryErrors (trim token),
           warnings = lengthWarnings (trim token) @ structureWarnings (split_on dot (trim token)),
           metadata = \<lparr> length_md = length (trim token),
                        parts = length (split_on dot (trim token)),
                        source = src_direct \<rparr> \<rparr>"
  have v: "(validateFormat (Str token) :: ('j, 'u) outcome) = Inr r"
    unfolding r_def by (rule validateFormat_Str [OF False])
  have a: "isValid r \<longleftrightarrow> errors r = []"
    by (simp add: r_def)
  have "isValid r' = isValid r"
    if "(validateFormat (Str token') :: ('j, 'u) outcome) = Inr r'"
      and "errors r' = errors r" for token' r'
    using validateFormat_InrD(2,3) [OF that(1)] that(2) a by simp
  with False v a show ?thesis by blast
qed

text \<open>
  The theorem at two tokens: one of 46 characters that is valid although a warning is
  present, and one of 20 characters that is invalid with one hard error.
\<close>

theorem validateFormat_isValid_iff_no_errors_witness:
  "tok46 \<noteq> []
   \<and> (validateFormat (Str tok46) :: (jsstring, jsstring) outcome) = Inr res46
   \<and> isValid res46 \<and> errors res46 = [] \<and> warnings res46 \<noteq> []
   \<and> tok20 \<noteq> []
   \<and> (validateFormat (Str tok20) :: (jsstring, jsstring) outcome) = Inr res20
   \<and> \<not> isValid res20 \<and> errors res20 \<noteq> []"
  using validateFormat_isValid_iff_no_errors [where ?'j = jsstring and ?'u = jsstring, OF tok46_ne]
    validateFormat_isValid_iff_no_errors [where ?'j = jsstring and ?'u = jsstring, OF tok20_ne]
    eval46 eval20 tok46_ne tok20_ne
  by (simp add: res46_def res20_def)

text \<open>
  Claim C3. The length rule on the trimmed token is graded. Below 30 code units the hard
  error \<open>Token is too short (n characters)...\<close> is among the errors and the result is
  invalid. From 30 up to 49 only the warning \<open>Token might be too short (n characters)...\<close>
  is added, and validity is decided by the other checks alone. From 50 on neither of the
  two token-length messages appears. \<open>hasCorrectLength\<close> is false exactly below 50.
  The messages of this rule are the two that report the length of the token; the
  warnings about short segments belong to the secondary checks of claim C9.
\<close>

theorem validateFormat_graded_length:
  assumes "validateFormat (Str token) = Inr r"
  shows "(length (trim token) < 30 \<longrightarrow>
            tooShortError (length (trim token)) \<in> set (errors r) \<and> \<not> isValid r
            \<and> (\<forall>k. mightBeTooShortWarning k \<notin> set (warnings r)))
       \<and> (30 \<le> length (trim token) \<and> length (trim token) < 50 \<longrightarrow>
            mightBeTooShortWarning (length (trim token)) \<in> set (warnings r))
       \<and> (30 \<le> length (trim token) \<longrightarrow>
            (\<forall>k. tooShortError k \<notin> set (errors r))
            \<and> (isValid r \<longleftrightarrow> trim token \<notin> set placeholders \<and> hasCorrectParts (format r)
                  \<and> hasNoSpaces (format r) \<and> hasNoQuotes (format r) \<and> isNotBotToken (format r)))
       \<and> (50 \<le> length (trim token) \<longrightarrow> (\<forall>k. mightBeTooShortWarning k \<notin> set (warnings r)))
       \<and> (hasCorrectLength (format r) \<longleftrightarrow> \<not> length (trim token) < 50)"
proof -
  note d = validateFormat_InrD [OF assms]
  have 1: "length (trim token) < 30 \<longrightarrow>
            tooShortError (length (trim token)) \<in> set (errors r) \<and> \<not> isValid r
            \<and> (\<forall>k. mightBeTooShortWarning k \<notin> set (warnings r))"
    by (simp add: d(2,3,4) tooShort_in_primary mightBeTooShort_in_lengthWarnings mightBeTooShort_not_structure primaryErrors_Nil_iff)
  have 2: "30 \<le> length (trim token) \<and> length (trim token) < 50 \<longrightarrow>
            mightBeTooShortWarning (length (trim token)) \<in> set (warnings r)"
    by (simp add: d(4) mightBeTooShort_in_lengthWarnings mightBeTooShort_not_structure)
  have 3: "30 \<le> length (trim token) \<longrightarrow>
            (\<forall>k. tooShortError k \<notin> set (errors r))
            \<and> (isValid r \<longleftrightarrow> trim token \<notin> set placeholders \<and> hasCorrectParts (format r)
                  \<and> hasNoSpaces (format r) \<and> hasNoQuotes (format r) \<and> isNotBotToken (format r))"
    by (simp add: d(2,3,5,7,8,9) tooShort_in_primary primaryErrors_Nil_iff del: str_Cons)
  have 4: "50 \<le> length (trim token) \<longrightarrow> (\<forall>k. mightBeTooShortWarning k \<notin> set (warnings r))"
    by (simp add: d(4) mightBeTooShort_in_lengthWarnings mightBeTooShort_not_structure)
  have 5: "hasCorrectLength (format r) \<longleftrightarrow> \<not> length (trim token) < 50"
    by (simp add: d(6) not_less)
  from 1 2 3 4 5 show ?thesis by blast
qed

text \<open>The theorem at tokens of 20, 46 and 69 characters, one for each grade.\<close>

theorem validateFormat_graded_length_witness:
  "(validateFormat (Str tok20) :: (jsstring, jsstring) outcome) = Inr res20
   \<and> length (trim tok20) = 20 \<and> tooShortError 20 \<in> set (errors res20) \<and> \<not> isValid res20
   \<and> \<not> hasCorrectLength (format res20)
   \<and> (validateFormat (Str tok46) :: (jsstring, jsstring) outcome) = Inr res46
   \<and> length (trim tok46) = 46 \<and> mightBeTooShortWarning 46 \<in> set (warnings res46) \<and> isValid res46
   \<and> \<not> hasCorrectLength (format res46)
   \<and> (validateFormat (Str tok69) :: (jsstring, jsstring) outcome) = Inr res69
   \<and> length (trim tok69) = 69 \<and> (\<forall>k. mightBeTooShortWarning k \<notin> set (warnings res69))
   \<and> (\<forall>k. tooShortError k \<notin> set (errors res69)) \<and> hasCorrectLength (format res69)"
proof -
  have e20: "(validateFormat (Str tok20) :: (jsstring, jsstring) outcome) = Inr res20"
    by (rule eval20)
  have e46: "(validateFormat (Str tok46) :: (jsstring, jsstring) outcome) = Inr res46"
    by (rule eval46)
  have e69: "(validateFormat (Str tok69) :: (jsstring, jsstring) outcome) = Inr res69"
    by (rule eval69)
  have v: "isValid res46" by (simp add: res46_def)
  show ?thesis
    using validateFormat_graded_length [OF e20] validateFormat_graded_length [OF e46]
      validateFormat_graded_length [OF e69] e20 e46 e69 v
    by (simp add: len20 len46 len69)
qed

text \<open>
  Claim C9. For a token whose trimmed text splits into exactly three segments, the
  secondary checks of \<open>validateTokenStructure\<close> leave the error list as it is and add a
  warning for each segment that is too short (first below 10, second below 6, third below
  20 code units) and for each segment that does not match \<open>/^[A-Za-z0-9+/=_-]+$/\<close>.
  Validity is decided by the primary checks alone.
\<close>

theorem structure_checks_warn_only:
  assumes "validateFormat (Str token) = Inr r"
    and "split_on dot (trim token) = [p1, p2, p3]"
  shows "(\<forall>errs warns. fst (validateTokenStructure [p1, p2, p3] errs warns) = errs)
       \<and> errors r = primaryErrors (trim token)
       \<and> (str ''First part (user ID) seems too short'' \<in> set (warnings r) \<longleftrightarrow> length p1 < 10)
       \<and> (str ''Second part (timestamp) seems too short'' \<in> set (warnings r) \<longleftrightarrow> length p2 < 6)
       \<and> (str ''Third part (signature) seems too short'' \<in> set (warnings r) \<longleftrightarrow> length p3 < 20)
       \<and> (str ''First part contains invalid characters for base64'' \<in> set (warnings r)
            \<longleftrightarrow> \<not> base64Regex_test p1)
       \<and> (str ''Second part contains invalid characters for base64'' \<in> set (warnings r)
            \<longleftrightarrow> \<not> base64Regex_test p2)
       \<and> (str ''Third part contains invalid characters for base64'' \<in> set (warnings r)
            \<longleftrightarrow> \<not> base64Regex_test p3)
       \<and> (isValid r \<longleftrightarrow> trim token \<notin> set placeholders \<and> 30 \<le> length (trim token)
             \<and> hasNoSpaces (format r) \<and> hasNoQuotes (format r) \<and> isNotBotToken (format r))"
proof -
  note d = validateFormat_InrD [OF assms(1)]
  have w: "warnings r = lengthWarnings (trim token) @ structureWarnings [p1, p2, p3]"
    using d(4) assms(2) by simp
  have v: "isValid r \<longleftrightarrow> trim token \<notin> set placeholders \<and> 30 \<le> length (trim token)
             \<and> hasNoSpaces (format r) \<and> hasNoQuotes (format r) \<and> isNotBotToken (format r)"
    by (simp add: d(2,7,8,9) primaryErrors_Nil_iff assms(2) del: str_Cons)
  have f: "\<forall>errs warns. fst (validateTokenStructure [p1, p2, p3] errs warns) = errs"
    by (simp add: validateTokenStructure_eq)
  from f v d(3) show ?thesis
    by (simp only: w structure_membership) simp
qed

text \<open>
  The theorem at a valid token of 47 characters whose second segment is short and whose
  third segment holds a \<open>#\<close>.
\<close>

theorem structure_checks_warn_only_witness:
  "(validateFormat (Str tok47) :: (jsstring, jsstring) outcome) = Inr res47
   \<and> split_on dot (trim tok47) = [str ''MTIzNDU2Nzg5MDEy'', str ''MTc'', str ''abcdefghi#klmnopqrstuvwxyz'']
   \<and> str ''Second part (timestamp) seems too short'' \<in> set (warnings res47)
   \<and> str ''Third part contains invalid characters for base64'' \<in> set (warnings res47)
   \<and> str ''First part (user ID) seems too short'' \<notin> set (warnings res47)
   \<and> isValid res47 \<and> errors res47 = []"
proof -
  have e47: "(validateFormat (Str tok47) :: (jsstring, jsstring) outcome) = Inr res47"
    by (rule eval47)
  have v: "isValid res47"
    "errors res47 = []"
    by (simp_all add: res47_def)
  have c: "length (str ''MTc'') < 6" "\<not> base64Regex_test (str ''abcdefghi#klmnopqrstuvwxyz'')"
     "\<not> length (str ''MTIzNDU2Nzg5MDEy'') < 10"
    by (simp_all add: base64Regex_test_def base64_class_def)
  show ?thesis
    using structure_checks_warn_only [OF e47 split47] e47 split47 v c
    by simp
qed

text \<open>
  Claim C10. For \<open>null\<close>, \<open>undefined\<close>, the empty string and a string that is empty
  after trimming, \<open>validateFormat\<close> throws a \<open>TOKEN_NOT_FOUND\<close> error, and
  \<open>quickFormatCheck\<close> catches it and returns \<open>false\<close>.
\<close>

theorem quickFormatCheck_absent_token:
  assumes "t = Null \<or> t = Undefined \<or> (\<exists>s. t = Str s \<and> trim s = [])"
  shows "(\<exists>e. validateFormat t = Inl e \<and> errType e = TOKEN_NOT_FOUND)
       \<and> quickFormatCheck t = False"
proof -
  from validateFormat_absent [OF assms]
  have "\<exists>e. validateFormat t = Inl e \<and> errType e = TOKEN_NOT_FOUND"
    by (auto simp add: tokenNotFound_def)
  moreover have "\<exists>m. (validateFormat t :: (unit, unit) outcome)
                     = Inl (tokenNotFound m)"
    by (rule validateFormat_absent [OF assms])
  then have "quickFormatCheck t = False"
    by (auto simp add: quickFormatCheck_def)
  ultimately show ?thesis ..
qed

theorem quickFormatCheck_absent_token_witness:
  "quickFormatCheck Null = False \<and> quickFormatCheck Undefined = False
   \<and> quickFormatCheck (Str []) = False
   \<and> trim (str ''   '') = [] \<and> quickFormatCheck (Str (str ''   '')) = False"
  using quickFormatCheck_absent_token [THEN conjunct2, of Null]
    quickFormatCheck_absent_token [THEN conjunct2, of Undefined]
    quickFormatCheck_absent_token [THEN conjunct2, of "Str []"]
    quickFormatCheck_absent_token [THEN conjunct2, of "Str (str ''   '')"]
  by (simp add: trim_def is_ws_def)

section \<open>Claims about the API validator\<close>

text \<open>
  Claim C6. Whatever the network does, \<open>validateWithApi\<close> returns a response, and the
  response satisfies the invariant: if \<open>success\<close> is true there is no \<open>error\<close> string, and
  if \<open>success\<close> is false there is no \<open>userInfo\<close>.
\<close>

theorem validateWithApi_invariant:
  "\<exists>a. validateWithApi pui config ev = Inr a
       \<and> (success a \<longrightarrow> error a = None)
       \<and> (\<not> success a \<longrightarrow> userInfo a = None)"
proof -
  obtain a where a: "validateWithApi pui config ev = Inr a"
    using validateWithApi_Inr by blast
  from validateWithApi_success [OF a] validateWithApi_failure(1) [OF a] a
  show ?thesis by blast
qed

text \<open>The theorem at a 200 response and at a 401 response.\<close>

theorem validateWithApi_invariant_witness:
  "validateWithApi parse_ok cfg0 ev200 =
      Inr \<lparr> success = True, userInfo = Some (str ''{}''), error = None, statusCode = None,
            rateLimited = None \<rparr>
   \<and> validateWithApi parse_ok cfg0 ev401 =
      Inr \<lparr> success = False, userInfo = None, error = Some (str ''Token is invalid or expired''),
            statusCode = Some 401, rateLimited = Some False \<rparr>"
  using validateWithApi_invariant [of parse_ok cfg0 ev200]
    validateWithApi_invariant [of parse_ok cfg0 ev401] api200 api401
  by simp

text \<open>
  Claim C7, as amended. When the body of the response parses as JSON, the status code
  decides the classification: 401 gives \<open>UNAUTHORIZED\<close> with the message
  \<open>Token is invalid or expired\<close>; 403 gives \<open>API_ERROR\<close> with a message saying the token
  may be valid but lacks permissions; 429 gives \<open>RATE_LIMITED\<close> with the value of the
  \<open>retry-after\<close> header in the details; every status other than 200, 401, 403 and 429
  gives \<open>API_ERROR\<close> with that status code in the details.
\<close>

theorem makeApiRequest_classification:
  fixes response :: 'j and pui :: "'j \<Rightarrow> thrown + 'u"
  shows "(status = 401 \<longrightarrow>
           makeApiRequest pui config (ResponseEnd status retryAfter data (Inr response)) =
             Inl (Classified \<lparr> message = str ''Token is invalid or expired'', errType = UNAUTHORIZED,
                                details = Some (no_details \<lparr> d_statusCode := Some 401,
                                                            d_response := Some response \<rparr>) \<rparr>))
       \<and> (status = 403 \<longrightarrow>
           makeApiRequest pui config (ResponseEnd status retryAfter data (Inr response)) =
             Inl (Classified \<lparr> message = str ''Access forbidden. Token may be valid but lacks permissions'',
                                errType = API_ERROR,
                                details = Some (no_details \<lparr> d_statusCode := Some 403,
                                                            d_response := Some response \<rparr>) \<rparr>))
       \<and> (status = 429 \<longrightarrow>
           (\<exists>e d. makeApiRequest pui config (ResponseEnd status retryAfter data (Inr response)) =
                     Inl (Classified e)
                  \<and> errType e = RATE_LIMITED \<and> details e = Some d
                  \<and> d_retryAfter d = retryAfter \<and> d_statusCode d = Some 429))
       \<and> (status \<notin> {200, 401, 403, 429} \<longrightarrow>
           (\<exists>e d. makeApiRequest pui config (ResponseEnd status retryAfter data (Inr response)) =
                     Inl (Classified e)
                  \<and> errType e = API_ERROR \<and> details e = Some d \<and> d_statusCode d = Some status
                  \<and> message e = str ''API request failed with status '' @ show_int status))"
  by (simp add: makeApiRequest_def no_details_def del: str_Cons)

text \<open>The theorem at the status codes 401, 403, 429 (with \<open>retry-after: 5\<close>) and 500.\<close>

theorem makeApiRequest_classification_witness:
  "makeApiRequest parse_ok cfg0 ev401 =
     Inl (Classified \<lparr> message = str ''Token is invalid or expired'', errType = UNAUTHORIZED,
                        details = Some (no_details \<lparr> d_statusCode := Some 401,
                                                    d_response := Some (str ''{}'') \<rparr>) \<rparr>)
   \<and> makeApiRequest parse_ok cfg0 ev403 =
     Inl (Classified \<lparr> message = str ''Access forbidden. Token may be valid but lacks permissions'',
                        errType = API_ERROR,
                        details = Some (no_details \<lparr> d_statusCode := Some 403,
                                                    d_response := Some (str ''{}'') \<rparr>) \<rparr>)
   \<and> makeApiRequest parse_ok cfg0 ev429 =
     Inl (Classified \<lparr> message = str ''Rate limited. Retry after 5 seconds'',
                        errType = RATE_LIMITED,
                        details = Some (no_details \<lparr> d_statusCode := Some 429,
                                                    d_retryAfter := Some (str ''5''),
                                                    d_response := Some (str ''{}'') \<rparr>) \<rparr>)
   \<and> makeApiRequest parse_ok cfg0 ev500 =
     Inl (Classified \<lparr> message = str ''API request failed with status 500'',
                        errType = API_ERROR,
                        details = Some (no_details \<lparr> d_statusCode := Some 500,
                                                    d_response := Some (str ''{}'') \<rparr>) \<rparr>)"
  using makeApiRequest_classification [of 401 parse_ok cfg0 None "str ''{}''" "str ''{}''"]
    makeApiRequest_classification [of 403 parse_ok cfg0 None "str ''{}''" "str ''{}''"]
    makeApiRequest_classification [of 429 parse_ok cfg0 "Some (str ''5'')" "str ''{}''" "str ''{}''"]
    makeApiRequest_classification [of 500 parse_ok cfg0 None "str ''{}''" "str ''{}''"]
  by (simp add: ev401_def ev403_def ev429_def ev500_def makeApiRequest_def show_header_def
      show_int_def show_nat.simps digit_unit_def no_details_def)

text \<open>
  Claim C7 as stated does not hold: \<open>JSON.parse\<close> runs before the status code is looked
  at, so a 401 response whose body is not JSON is classified \<open>API_ERROR\<close> with the
  message \<open>Failed to parse API response\<close>, and its details hold no status code.
\<close>

theorem makeApiRequest_unparsable_401:
  "makeApiRequest parse_ok cfg0 ev401_unparsable = Inl (Classified err401_unparsable)
   \<and> errType err401_unparsable = API_ERROR
   \<and> errType err401_unparsable \<noteq> UNAUTHORIZED
   \<and> message err401_unparsable \<noteq> str ''Token is invalid or expired''"
  by (simp add: makeApiRequest_def ev401_unparsable_def err401_unparsable_def parseFailure_def
      no_details_def)

section \<open>Claims about the orchestrator\<close>

text \<open>
  Claim C1. With method \<open>both\<close> and \<open>checkApi\<close> set, a token that passes the emptiness
  test of \<open>validateFormat\<close> gets a result whose \<open>isValid\<close> is true exactly when the format
  verdict is valid and the API step succeeded. When the API step fails, \<open>isValid\<close> is
  false, also for a valid format. For every failure that \<open>makeApiRequest\<close> classifies (a
  response, an \<open>error\<close> event, a timeout) the string \<open>API validation failed: \<close> followed
  by the classified message is appended to the errors of the format verdict. The same
  holds for an exception thrown while the request is set up, when its message is not
  empty, which is what the source tests before it appends.
\<close>

theorem validateToken_both_merge:
  fixes pui :: "'j \<Rightarrow> thrown + 'u" and f :: "'u TokenValidationResult"
  assumes "checkApi config" and "validateFormat (Str token) = Inr f"
  shows "\<exists>a r. validateWithApi pui config ev = Inr a
            \<and> validateToken pui config token src method_both ev = Inr r
            \<and> (isValid r \<longleftrightarrow> isValid f \<and> success a)
            \<and> (\<not> success a \<longrightarrow> \<not> isValid r)
            \<and> (\<not> success a \<and> (\<forall>x. ev \<noteq> RequestThrew x) \<longrightarrow>
                  (\<exists>m. error a = Some m
                     \<and> errors r = errors f @ [str ''API validation failed: '' @ m]))
            \<and> (\<forall>m. \<not> success a \<and> error a = Some m \<and> m \<noteq> []
                  \<longrightarrow> errors r = errors f @ [str ''API validation failed: '' @ m])
            \<and> (success a \<longrightarrow> errors r = errors f)
            \<and> format r = format f \<and> warnings r = warnings f"
proof -
  obtain a where a: "validateWithApi pui config ev = Inr a"
    using validateWithApi_Inr by blast
  define f' where "f' = f \<lparr> metadata := (metadata f) \<lparr> source := src \<rparr> \<rparr>"
  define r where "r = apiPhase pui config method_both ev f'"
  have vt: "validateToken pui config token src method_both ev = Inr r"
    by (simp add: validateToken_def validateFormat_Inr_any [OF assms(2)] Let_def r_def f'_def)
  note p = apiPhase_checked [where mth = method_both and res = f', OF assms(1) disjI2 [OF refl] a, folded r_def]
  have f': "isValid f' = isValid f" "errors f' = errors f" "format f' = format f"
      "warnings f' = warnings f"
    by (simp_all add: f'_def)
  have 1: "isValid r \<longleftrightarrow> isValid f \<and> success a" using p(1) f' by simp
  have 2: "\<not> success a \<longrightarrow> \<not> isValid r" using 1 by simp
  have 3: "\<forall>m. \<not> success a \<and> error a = Some m \<and> m \<noteq> []
                  \<longrightarrow> errors r = errors f @ [str ''API validation failed: '' @ m]"
    using p(3) f' by (simp del: str_Cons)
  have 4: "\<not> success a \<and> (\<forall>x. ev \<noteq> RequestThrew x) \<longrightarrow>
             (\<exists>m. error a = Some m \<and> errors r = errors f @ [str ''API validation failed: '' @ m])"
    using validateWithApi_failure(3) [OF a] 3 by blast
  have 5: "success a \<longrightarrow> errors r = errors f" using p(2) f' by simp
  have 6: "format r = format f" "warnings r = warnings f" using p(4,5) f' by simp_all
  from a vt 1 2 3 4 5 6 show ?thesis by blast
qed

text \<open>
  The theorem at a token of valid format, with a 401 response (invalid, one error
  appended) and with a 200 response (valid, no error).
\<close>

theorem validateToken_both_merge_witness:
  "checkApi cfg0
   \<and> (validateFormat (Str tok69) :: (jsstring, jsstring) outcome)
       = Inr res69
   \<and> isValid res69
   \<and> validateToken parse_ok cfg0 tok69 src_env method_both ev401 = Inr res69_401
   \<and> \<not> isValid res69_401
   \<and> errors res69_401 = errors res69 @ [str ''API validation failed: Token is invalid or expired'']
   \<and> validateToken parse_ok cfg0 tok69 src_env method_both ev200 = Inr res69_200
   \<and> isValid res69_200 \<and> errors res69_200 = errors res69"
proof -
  have v: "isValid res69" by (simp add: res69_def)
  show ?thesis
    using validateToken_both_merge [OF cfg0_checkApi eval69, of parse_ok ev401 src_env]
      validateToken_both_merge [OF cfg0_checkApi eval69, of parse_ok ev200 src_env]
      cfg0_checkApi eval69 both401 both200 api401 api200 v
    by simp
qed

text \<open>
  Claim C8. With method \<open>api\<close>, every token string gets a result whose five format flags
  are all true. When \<open>checkApi\<close> is set, \<open>isValid\<close> is the \<open>success\<close> of the API step; when
  it is not set no request is made and \<open>isValid\<close> is true.
\<close>

theorem validateToken_api_only:
  fixes pui :: "'j \<Rightarrow> thrown + 'u"
  shows "\<exists>r. validateToken pui config token src method_api ev = Inr r
       \<and> format r = \<lparr> hasCorrectParts = True, hasCorrectLength = True, hasNoSpaces = True,
                       hasNoQuotes = True, isNotBotToken = True \<rparr>
       \<and> (checkApi config \<longrightarrow> (\<exists>a. validateWithApi pui config ev = Inr a \<and> isValid r = success a))
       \<and> (\<not> checkApi config \<longrightarrow> isValid r)"
proof -
  obtain a where a: "validateWithApi pui config ev = Inr a"
    using validateWithApi_Inr by blast
  define res :: "'u TokenValidationResult" where
    "res = \<lparr> isValid = True,
             format = \<lparr> hasCorrectParts = True, hasCorrectLength = True, hasNoSpaces = True,
                        hasNoQuotes = True, isNotBotToken = True \<rparr>,
             api = None, errors = [], warnings = [],
             metadata = \<lparr> length_md = length token, parts = length (split_on dot token),
                          source = src \<rparr> \<rparr>"
  define r where "r = apiPhase pui config method_api ev res"
  have vt: "validateToken pui config token src method_api ev = Inr r"
    by (simp add: validateToken_def Let_def r_def res_def)
  show ?thesis
  proof (cases "checkApi config")
    case True
    note p = apiPhase_checked [where mth = method_api and res = res, OF True disjI1 [OF refl] a, folded r_def]
    from p(1,4) have "isValid r = success a" "format r = format res"
      by (simp_all add: res_def)
    with vt a True show ?thesis by (simp add: res_def)
  next
    case False
    from apiPhase_unchecked [OF False, where pui = pui and mth = method_api and ev = ev and res = res] have "r = res"
      by (simp add: r_def)
    with vt False show ?thesis by (simp add: res_def)
  qed
qed

text \<open>
  The theorem at the malformed token \<open>Bot x y\<close>, which the format validator rejects: the
  result is invalid with a 401 response and valid with a 200 response, with the same flags.
\<close>

theorem validateToken_api_only_witness:
  "checkApi cfg0
   \<and> validateToken parse_ok cfg0 tok_malformed src_direct method_api ev401 = Inr res_api_401
   \<and> \<not> isValid res_api_401
   \<and> validateToken parse_ok cfg0 tok_malformed src_direct method_api ev200 = Inr res_api_200
   \<and> isValid res_api_200
   \<and> format res_api_200 = format res_api_401
   \<and> \<not> quickFormatCheck (Str tok_malformed)"
proof -
  have q: "\<not> quickFormatCheck (Str tok_malformed)"
    by (simp add: quickFormatCheck_def eval_defs tok_malformed_def)
  show ?thesis
    using validateToken_api_only [of parse_ok cfg0 tok_malformed src_direct ev401]
      validateToken_api_only [of parse_ok cfg0 tok_malformed src_direct ev200]
      cfg0_checkApi api_only_401 api_only_200 api401 api200 q
    by simp
qed

section \<open>Claims about the extraction functions\<close>

text \<open>
  Claim C4. \<open>extractUserId\<close> and \<open>extractTimestamp\<close> return a value for every string and
  every behaviour of the decoder, also one that throws. The result is absent when the
  token does not split into exactly three segments, when decoding throws, when the decoded
  first segment is not all digits (user ID), and when the decoded second segment does not
  parse as a number (timestamp). In the remaining cases the decoded digits, respectively
  the date of the parsed number, are returned.
\<close>

theorem extraction_never_throws:
  fixes decode :: "jsstring \<Rightarrow> thrown + jsstring"
  shows "(length (split_on dot token) \<noteq> 3 \<longrightarrow>
            extractUserId decode token = None \<and> extractTimestamp decode token = None)
       \<and> (length (split_on dot token) = 3 \<longrightarrow>
            (\<forall>x. decode (split_on dot token ! 0) = Inl x \<longrightarrow> extractUserId decode token = None)
          \<and> (\<forall>d. decode (split_on dot token ! 0) = Inr d \<and> \<not> digitRegex_test d
                 \<longrightarrow> extractUserId decode token = None)
          \<and> (\<forall>d. decode (split_on dot token ! 0) = Inr d \<and> digitRegex_test d
                 \<longrightarrow> extractUserId decode token = Some d)
          \<and> (\<forall>x. decode (split_on dot token ! 1) = Inl x \<longrightarrow> extractTimestamp decode token = None)
          \<and> (\<forall>d. decode (split_on dot token ! 1) = Inr d \<and> parseInt10 d = None
                 \<longrightarrow> extractTimestamp decode token = None)
          \<and> (\<forall>d n. decode (split_on dot token ! 1) = Inr d \<and> parseInt10 d = Some n
                 \<longrightarrow> extractTimestamp decode token = Some (new_Date (n * 1000))))"
  by (simp add: extractUserId_def extractTimestamp_def Let_def)

text \<open>
  The theorem at a string of one segment, at three segments that are not base64, at a
  well-formed token with a decoder that throws, and at the same token with the runtime's
  decoder.
\<close>

theorem extraction_never_throws_witness:
  "length (split_on dot tok_one_part) \<noteq> 3
   \<and> extractUserId node_decode tok_one_part = None
   \<and> extractTimestamp node_decode tok_one_part = None
   \<and> length (split_on dot tok_garbage) = 3
   \<and> node_decode (split_on dot tok_garbage ! 0) = Inr [] \<and> \<not> digitRegex_test []
   \<and> extractUserId node_decode tok_garbage = None
   \<and> node_decode (split_on dot tok_garbage ! 1) = Inr [] \<and> parseInt10 [] = None
   \<and> extractTimestamp node_decode tok_garbage = None
   \<and> length (split_on dot tok69) = 3
   \<and> extractUserId decode_throws tok69 = None
   \<and> extractTimestamp decode_throws tok69 = None
   \<and> node_decode (split_on dot tok69 ! 0) = Inr (str ''123456789012345678'')
   \<and> digitRegex_test (str ''123456789012345678'')
   \<and> extractUserId node_decode tok69 = Some (str ''123456789012345678'')
   \<and> node_decode (split_on dot tok69 ! 1) = Inr (str ''1700000000'')
   \<and> parseInt10 (str ''1700000000'') = Some 1700000000
   \<and> extractTimestamp node_decode tok69 = Some (Date 1700000000000)"
proof -
  have p: "parseInt10 [] = None" "\<not> digitRegex_test []"
    by (simp_all add: parseInt10_def digitRegex_test_def)
  have d: "digitRegex_test (str ''123456789012345678'')"
    using userIdText_digits by (simp add: userIdText_def)
  show ?thesis
    using extraction_never_throws [of tok_one_part node_decode]
      extraction_never_throws [of tok_garbage node_decode]
      extraction_never_throws [of tok69 decode_throws]
      extraction_never_throws [of tok69 node_decode]
      split_one_part split_garbage decode_garbage split_tok69_parts decode_tok69_parts
      parse_1700000000 p d
    by (simp add: decode_throws_def new_Date_def)
qed

text \<open>
  Claim C5. For a token of three segments joined by dots, where the first is the base64
  encoding of \<open>123456789012345678\<close>, the second the base64 encoding of the decimal
  digits of an epoch in seconds whose milliseconds are a valid time value, and the third
  any text without a dot, \<open>extractUserId\<close> returns exactly those digits and
  \<open>extractTimestamp\<close> returns the date whose time value is the epoch times 1000.
\<close>

theorem extraction_round_trip:
  assumes "dot \<notin> set signature" and "\<bar>epoch * 1000\<bar> \<le> 8640000000000000"
  shows "extractUserId node_decode
           (base64_encode (ascii_bytes userIdText) @ dot
              # base64_encode (ascii_bytes (show_int epoch)) @ dot # signature)
         = Some userIdText
       \<and> extractTimestamp node_decode
           (base64_encode (ascii_bytes userIdText) @ dot
              # base64_encode (ascii_bytes (show_int epoch)) @ dot # signature)
         = Some (Date (epoch * 1000))"
proof -
  let ?p1 = "base64_encode (ascii_bytes userIdText)"
  let ?p2 = "base64_encode (ascii_bytes (show_int epoch))"
  have sp: "split_on dot (?p1 @ dot # ?p2 @ dot # signature) = [?p1, ?p2, signature]"
    using assms(1) by (intro split_three dot_notin_base64_encode)
  have d1: "node_decode ?p1 = Inr userIdText"
    by (rule node_decode_base64_ascii [OF userIdText_ascii])
  have d2: "node_decode ?p2 = Inr (show_int epoch)"
    by (rule node_decode_base64_ascii [OF show_int_ascii])
  have u: "extractUserId node_decode (?p1 @ dot # ?p2 @ dot # signature) = Some userIdText"
    by (simp add: extractUserId_def sp d1 userIdText_digits)
  have t: "extractTimestamp node_decode (?p1 @ dot # ?p2 @ dot # signature)
             = Some (Date (epoch * 1000))"
    using assms(2) by (simp add: extractTimestamp_def sp d2 parseInt10_show_int new_Date_def)
  from u t show ?thesis ..
qed

text \<open>The theorem at the epoch 1700000000 and a third segment of 27 letters.\<close>

theorem extraction_round_trip_witness:
  "dot \<notin> set sig27 \<and> \<bar>1700000000 * 1000\<bar> \<le> (8640000000000000 :: int)
   \<and> base64_encode (ascii_bytes userIdText) @ dot
        # base64_encode (ascii_bytes (show_int 1700000000)) @ dot # sig27 = tok69
   \<and> extractUserId node_decode tok69 = Some (str ''123456789012345678'')
   \<and> extractTimestamp node_decode tok69 = Some (Date 1700000000000)"
proof -
  have b: "\<bar>1700000000 * 1000\<bar> \<le> (8640000000000000 :: int)" by simp
  show ?thesis
    using extraction_round_trip [OF sig27_no_dot b] sig27_no_dot build_tok69
    by (simp add: userIdText_def)
qed

end
